theory Spec2Isabelle
  imports Complex_Main "HOL-Library.Monad_Syntax"
begin

section \<open>Shape model\<close>

text \<open>
  A shape is a plain JavaScript object. The fields that the whiteboard reads or writes
  are \<^verbatim>\<open>id, type, x, y, pageId, radius, x2, y2, points, content, fontSize,
  fontFamily, width, height, color\<close>. The first five are set by every constructor of the
  source and are modelled as always present; the others are optional, \<open>None\<close> standing
  for an absent (\<^verbatim>\<open>undefined\<close>) property. Field names carry the prefix \<open>s_\<close>
  (\<open>p_\<close> for a point) because \<open>id\<close>, \<open>x\<close> and \<open>y\<close> would clash with HOL's
  identity function and with variable names.

  Numbers are modelled as real numbers: rounding of IEEE doubles is not represented.
\<close>

record point =
  p_x :: real
  p_y :: real

record shape =
  s_id :: string
  s_type :: string
  s_x :: real
  s_y :: real
  s_pageId :: string
  s_radius :: "real option"
  s_x2 :: "real option"
  s_y2 :: "real option"
  s_points :: "point list option"
  s_content :: "string option"
  s_fontSize :: "real option"
  s_fontFamily :: "string option"
  s_width :: "real option"
  s_height :: "real option"
  s_color :: "string option"

text \<open>
  \<^verbatim>\<open>a || d\<close> on an optional number: \<^verbatim>\<open>undefined\<close> and \<^verbatim>\<open>0\<close> are both
  falsy, so both select the default.
\<close>

fun num_or :: "real option \<Rightarrow> real \<Rightarrow> real" where
  "num_or None d = d"
| "num_or (Some v) d = (if v = 0 then d else v)"

text \<open>\<^verbatim>\<open>a || d\<close> on an optional string: \<^verbatim>\<open>undefined\<close> and the empty string are falsy.\<close>

fun str_or :: "string option \<Rightarrow> string \<Rightarrow> string" where
  "str_or None d = d"
| "str_or (Some v) d = (if v = [] then d else v)"

section \<open>Hit testing: \<^verbatim>\<open>findShapeAt\<close>\<close>

text \<open>
  The pencil branch folds \<^verbatim>\<open>Math.min\<close> and \<^verbatim>\<open>Math.max\<close> over the stroke,
  starting from \<^verbatim>\<open>Infinity\<close> and \<^verbatim>\<open>-Infinity\<close>. A bound is therefore a real
  number or one of the two infinities.
\<close>

datatype bound = NegInfinity | Num real | Infinity

fun Math_min :: "bound \<Rightarrow> real \<Rightarrow> bound" where
  "Math_min NegInfinity v = NegInfinity"
| "Math_min (Num b) v = Num (min b v)"
| "Math_min Infinity v = Num v"

fun Math_max :: "bound \<Rightarrow> real \<Rightarrow> bound" where
  "Math_max NegInfinity v = Num v"
| "Math_max (Num b) v = Num (max b v)"
| "Math_max Infinity v = Infinity"

text \<open>\<^verbatim>\<open>v >= b\<close> and \<^verbatim>\<open>v <= b\<close> for a number \<open>v\<close> and a bound \<open>b\<close>.\<close>

fun ge_bound :: "real \<Rightarrow> bound \<Rightarrow> bool" where
  "ge_bound v NegInfinity = True"
| "ge_bound v (Num b) = (v \<ge> b)"
| "ge_bound v Infinity = False"

fun le_bound :: "real \<Rightarrow> bound \<Rightarrow> bool" where
  "le_bound v NegInfinity = False"
| "le_bound v (Num b) = (v \<le> b)"
| "le_bound v Infinity = True"

record bbox =
  minX :: bound
  minY :: bound
  maxX :: bound
  maxY :: bound

text \<open>The callback of \<^verbatim>\<open>pts.forEach\<close>, and the loop \<^verbatim>\<open>forEach\<close> runs.\<close>

definition bbox_step :: "bbox \<Rightarrow> point \<Rightarrow> bbox" where
  "bbox_step b p =
     \<lparr> minX = Math_min (minX b) (p_x p), minY = Math_min (minY b) (p_y p),
       maxX = Math_max (maxX b) (p_x p), maxY = Math_max (maxY b) (p_y p) \<rparr>"

fun bbox_forEach :: "bbox \<Rightarrow> point list \<Rightarrow> bbox" where
  "bbox_forEach b [] = b"
| "bbox_forEach b (p # ps) = bbox_forEach (bbox_step b p) ps"

definition bbox_init :: bbox where
  "bbox_init = \<lparr> minX = Infinity, minY = Infinity, maxX = NegInfinity, maxY = NegInfinity \<rparr>"

text \<open>
  One iteration of the loop of \<^verbatim>\<open>findShapeAt\<close>: \<open>True\<close> when the body executes
  \<^verbatim>\<open>return s\<close>, \<open>False\<close> when it falls through (or executes \<^verbatim>\<open>continue\<close>) to the
  next index. In the line branch an absent \<^verbatim>\<open>x2\<close> or \<^verbatim>\<open>y2\<close> makes
  \<^verbatim>\<open>Math.min\<close> and \<^verbatim>\<open>Math.max\<close> return \<^verbatim>\<open>NaN\<close>, and every comparison with
  \<^verbatim>\<open>NaN\<close> is false.
\<close>

definition returns_at :: "point \<Rightarrow> shape \<Rightarrow> bool" where
  "returns_at pt s =
     (if s_type s = ''circle'' then
        (let dx = p_x pt - s_x s; dy = p_y pt - s_y s
         in sqrt (dx * dx + dy * dy) \<le> num_or (s_radius s) 30)
      else if s_type s = ''line'' \<or> s_type s = ''arrow'' then
        (case (s_x2 s, s_y2 s) of
           (Some x2, Some y2) \<Rightarrow>
             (let mnX = min (s_x s) x2; mxX = max (s_x s) x2;
                  mnY = min (s_y s) y2; mxY = max (s_y s) y2
              in p_x pt \<ge> mnX - 6 \<and> p_x pt \<le> mxX + 6 \<and> p_y pt \<ge> mnY - 6 \<and> p_y pt \<le> mxY + 6)
         | _ \<Rightarrow> False)
      else if s_type s = ''pencil'' then
        (let pts = (case s_points s of None \<Rightarrow> [] | Some ps \<Rightarrow> ps)
         in if length pts = 0 then False
            else (let b = bbox_forEach bbox_init pts
                  in ge_bound (p_x pt) (minX b) \<and> le_bound (p_x pt) (maxX b) \<and>
                     ge_bound (p_y pt) (minY b) \<and> le_bound (p_y pt) (maxY b)))
      else
        (let w = num_or (s_width s) 60; h = num_or (s_height s) 40
         in p_x pt \<ge> s_x s \<and> p_x pt \<le> s_x s + w \<and> p_y pt \<ge> s_y s \<and> p_y pt \<le> s_y s + h))"

text \<open>
  The loop \<^verbatim>\<open>for (let i = shapes.length - 1; i >= 0; i--)\<close>. The counter of the model
  is \<open>i + 1\<close>, so that the loop ends at \<open>0\<close>; the index read is always in range.
\<close>

fun findShapeAt_loop :: "point \<Rightarrow> shape list \<Rightarrow> nat \<Rightarrow> shape option" where
  "findShapeAt_loop pt shs 0 = None"
| "findShapeAt_loop pt shs (Suc i) =
     (let s = shs ! i
      in if returns_at pt s then Some s else findShapeAt_loop pt shs i)"

definition findShapeAt :: "point \<Rightarrow> shape list \<Rightarrow> shape option" where
  "findShapeAt pt shs = findShapeAt_loop pt shs (length shs)"

section \<open>Identifiers: \<^verbatim>\<open>uid\<close>\<close>

text \<open>
  \<^verbatim>\<open>prefix + '_' + Date.now() + '_' + Math.floor(Math.random() * 1000)\<close>. The clock
  reading and the random draw are inputs of the model. Both numbers are integers when they
  are concatenated, and JavaScript prints an integer of this size in decimal.
\<close>

definition digit :: "nat \<Rightarrow> char" where
  "digit d = ''0123456789'' ! d"

function str_of_nat :: "nat \<Rightarrow> string" where
  "str_of_nat n = (if n < 10 then [digit n] else str_of_nat (n div 10) @ [digit (n mod 10)])"
  by pat_completeness auto
termination
  by (relation "measure (\<lambda>n. n)") auto

declare str_of_nat.simps [simp del]

definition str_of_int :: "int \<Rightarrow> string" where
  "str_of_int i = (if i < 0 then CHR ''-'' # str_of_nat (nat (- i)) else str_of_nat (nat i))"

definition uid :: "string \<Rightarrow> int \<Rightarrow> real \<Rightarrow> string" where
  "uid prefix date_now math_random =
     prefix @ ''_'' @ str_of_int date_now @ ''_'' @ str_of_int (floor (math_random * 1000))"

section \<open>The text of the local cache: \<^verbatim>\<open>JSON.stringify\<close> and \<^verbatim>\<open>JSON.parse\<close>\<close>

text \<open>
  Modelled from the spec: the serialiser and the parser of the local cache ("overwrite the
  entire local cache with the serialized new list", "reading the local cache") are not in
  the sources of the repository, which call \<^verbatim>\<open>JSON.stringify\<close> and
  \<^verbatim>\<open>JSON.parse\<close> of the platform. They are written here after the platform's
  documentation (ECMA-262, 25.5).

  A JSON text is modelled by the list of its tokens: the six punctuators, the three
  literal names, and number and string literals. A number or string literal stands for its
  value; how the platform prints a number or escapes a string, and that it reads its own
  output back as the same value, is below this model.
\<close>

datatype json = JNull | JBool bool | JNum real | JStr string | JArr "json list"
  | JObj "(string \<times> json) list"

datatype token = LBrace | RBrace | LBracket | RBracket | Colon | Comma
  | TNull | TTrue | TFalse | TNum real | TStr string

text \<open>
  Modelled from the spec: the serialiser behind \<^verbatim>\<open>JSON.stringify\<close>, which is not in
  the sources. Elements and members are written in order, separated by commas, an
  array between brackets and an object between braces, each member as its quoted name, a
  colon and its value.
\<close>

fun serialize :: "json \<Rightarrow> token list"
  and serialize_elements :: "json list \<Rightarrow> token list"
  and serialize_members :: "(string \<times> json) list \<Rightarrow> token list" where
  "serialize JNull = [TNull]"
| "serialize (JBool b) = [if b then TTrue else TFalse]"
| "serialize (JNum v) = [TNum v]"
| "serialize (JStr s) = [TStr s]"
| "serialize (JArr vs) = LBracket # serialize_elements vs @ [RBracket]"
| "serialize (JObj ms) = LBrace # serialize_members ms @ [RBrace]"
| "serialize_elements [] = []"
| "serialize_elements [v] = serialize v"
| "serialize_elements (v # w # vs) = serialize v @ Comma # serialize_elements (w # vs)"
| "serialize_members [] = []"
| "serialize_members [(k, v)] = TStr k # Colon # serialize v"
| "serialize_members ((k, v) # m # ms) =
     TStr k # Colon # serialize v @ Comma # serialize_members (m # ms)"

text \<open>
  Modelled from the spec: the parser behind \<^verbatim>\<open>JSON.parse\<close>, which is not in the
  sources, by recursive descent over the grammar \<open>value\<close>, \<open>elements\<close>,
  \<open>members\<close>; \<open>None\<close> is a \<^verbatim>\<open>SyntaxError\<close>. Each function returns the value
  read and the tokens that follow it. The tests \<open>length r1 < length ts\<close> always
  succeed (a value takes at least one token); they are there for the termination of the
  definition.
\<close>

function parse_value :: "token list \<Rightarrow> (json \<times> token list) option"
  and parse_elements :: "token list \<Rightarrow> (json list \<times> token list) option"
  and parse_members :: "token list \<Rightarrow> ((string \<times> json) list \<times> token list) option" where
  "parse_value [] = None"
| "parse_value (TNull # ts) = Some (JNull, ts)"
| "parse_value (TTrue # ts) = Some (JBool True, ts)"
| "parse_value (TFalse # ts) = Some (JBool False, ts)"
| "parse_value (TNum v # ts) = Some (JNum v, ts)"
| "parse_value (TStr s # ts) = Some (JStr s, ts)"
| "parse_value (LBracket # ts) =
     (case ts of
        RBracket # r \<Rightarrow> Some (JArr [], r)
      | _ \<Rightarrow> (case parse_elements ts of None \<Rightarrow> None | Some (vs, r) \<Rightarrow> Some (JArr vs, r)))"
| "parse_value (LBrace # ts) =
     (case ts of
        RBrace # r \<Rightarrow> Some (JObj [], r)
      | _ \<Rightarrow> (case parse_members ts of None \<Rightarrow> None | Some (ms, r) \<Rightarrow> Some (JObj ms, r)))"
| "parse_value (RBrace # ts) = None"
| "parse_value (RBracket # ts) = None"
| "parse_value (Colon # ts) = None"
| "parse_value (Comma # ts) = None"
| "parse_elements ts =
     (case parse_value ts of
        None \<Rightarrow> None
      | Some (v, r) \<Rightarrow>
          (case r of
             RBracket # r1 \<Rightarrow> Some ([v], r1)
           | Comma # r1 \<Rightarrow>
               (if length r1 < length ts
                then (case parse_elements r1 of
                        None \<Rightarrow> None | Some (vs, r2) \<Rightarrow> Some (v # vs, r2))
                else None)
           | _ \<Rightarrow> None))"
| "parse_members ts =
     (case ts of
        TStr k # Colon # ts1 \<Rightarrow>
          (case parse_value ts1 of
             None \<Rightarrow> None
           | Some (v, r) \<Rightarrow>
               (case r of
                  RBrace # r1 \<Rightarrow> Some ([(k, v)], r1)
                | Comma # r1 \<Rightarrow>
                    (if length r1 < length ts
                     then (case parse_members r1 of
                             None \<Rightarrow> None | Some (ms, r2) \<Rightarrow> Some ((k, v) # ms, r2))
                     else None)
                | _ \<Rightarrow> None))
      | _ \<Rightarrow> None)"
  by pat_completeness auto
termination
  by (relation "measure (\<lambda>a. case a of Inl ts \<Rightarrow> 2 * length ts
                               | Inr (Inl ts) \<Rightarrow> 2 * length ts + 1
                               | Inr (Inr ts) \<Rightarrow> 2 * length ts + 1)") auto

declare parse_elements.simps [simp del] parse_members.simps [simp del]

text \<open>
  Modelled from the spec: \<^verbatim>\<open>JSON.parse\<close>, which is not in the sources, accepts a text
  that is one value and nothing more.
\<close>

definition JSON_parse :: "token list \<Rightarrow> json option" where
  "JSON_parse ts = (case parse_value ts of Some (v, []) \<Rightarrow> Some v | _ \<Rightarrow> None)"

text \<open>
  Modelled from the spec: a shape as the serialiser, which is not in the sources, sees it:
  an object whose properties are the fields that are
  present; a property whose value is \<^verbatim>\<open>undefined\<close> is left out. The shape model
  does not record the order in which the properties of an object were created, so they
  are listed in the order of the record; what is read back does not depend on the order,
  since the fields are read by name.
\<close>

fun opt :: "string \<Rightarrow> json option \<Rightarrow> (string \<times> json) list" where
  "opt k None = []"
| "opt k (Some v) = [(k, v)]"

definition point_json :: "point \<Rightarrow> json" where
  "point_json p = JObj [(''x'', JNum (p_x p)), (''y'', JNum (p_y p))]"

definition shape_json :: "shape \<Rightarrow> json" where
  "shape_json s =
     JObj ([(''id'', JStr (s_id s)), (''type'', JStr (s_type s)), (''x'', JNum (s_x s)),
            (''y'', JNum (s_y s)), (''pageId'', JStr (s_pageId s))] @
           opt ''radius'' (map_option JNum (s_radius s)) @
           opt ''x2'' (map_option JNum (s_x2 s)) @
           opt ''y2'' (map_option JNum (s_y2 s)) @
           opt ''points'' (map_option (\<lambda>ps. JArr (map point_json ps)) (s_points s)) @
           opt ''content'' (map_option JStr (s_content s)) @
           opt ''fontSize'' (map_option JNum (s_fontSize s)) @
           opt ''fontFamily'' (map_option JStr (s_fontFamily s)) @
           opt ''width'' (map_option JNum (s_width s)) @
           opt ''height'' (map_option JNum (s_height s)) @
           opt ''color'' (map_option JStr (s_color s)))"

text \<open>
  Modelled from the spec: \<^verbatim>\<open>JSON.stringify(l)\<close>, which is not in the sources, for a
  list of shapes \<open>l\<close>.
\<close>

definition JSON_stringify :: "shape list \<Rightarrow> token list" where
  "JSON_stringify l = serialize (JArr (map shape_json l))"

text \<open>
  Modelled from the spec: the value that \<^verbatim>\<open>JSON.parse\<close>, which is not in the sources,
  returns, read as a list of shapes. \<open>get_property ms k\<close> is the value of
  the property \<open>k\<close> of the object that the parser builds from the members \<open>ms\<close>: a
  later member of the same name replaces an earlier one. A field of a shape is the
  property of its name; an optional field is absent when the object has no such property.
  The result is \<open>None\<close> when the value is not a list of shapes of this model (a required
  field missing, or a field of another type).
\<close>

fun get_property :: "(string \<times> json) list \<Rightarrow> string \<Rightarrow> json option" where
  "get_property [] k = None"
| "get_property ((k1, v) # ms) k =
     (case get_property ms k of Some w \<Rightarrow> Some w | None \<Rightarrow> if k = k1 then Some v else None)"

fun as_string :: "json option \<Rightarrow> string option" where
  "as_string (Some (JStr s)) = Some s"
| "as_string _ = None"

fun as_number :: "json option \<Rightarrow> real option" where
  "as_number (Some (JNum v)) = Some v"
| "as_number _ = None"

fun optional :: "(json option \<Rightarrow> 'a option) \<Rightarrow> json option \<Rightarrow> 'a option option" where
  "optional f None = Some None"
| "optional f (Some j) = map_option Some (f (Some j))"

fun point_of_json :: "json \<Rightarrow> point option" where
  "point_of_json (JObj ms) =
     do { vx \<leftarrow> as_number (get_property ms ''x'');
          vy \<leftarrow> as_number (get_property ms ''y'');
          Some \<lparr> p_x = vx, p_y = vy \<rparr> }"
| "point_of_json _ = None"

fun as_points :: "json option \<Rightarrow> point list option" where
  "as_points (Some (JArr vs)) = those (map point_of_json vs)"
| "as_points _ = None"

fun shape_of_json :: "json \<Rightarrow> shape option" where
  "shape_of_json (JObj ms) =
     do { i \<leftarrow> as_string (get_property ms ''id'');
          ty \<leftarrow> as_string (get_property ms ''type'');
          vx \<leftarrow> as_number (get_property ms ''x'');
          vy \<leftarrow> as_number (get_property ms ''y'');
          pg \<leftarrow> as_string (get_property ms ''pageId'');
          radius \<leftarrow> optional as_number (get_property ms ''radius'');
          x2 \<leftarrow> optional as_number (get_property ms ''x2'');
          y2 \<leftarrow> optional as_number (get_property ms ''y2'');
          points \<leftarrow> optional as_points (get_property ms ''points'');
          content \<leftarrow> optional as_string (get_property ms ''content'');
          fontSize \<leftarrow> optional as_number (get_property ms ''fontSize'');
          fontFamily \<leftarrow> optional as_string (get_property ms ''fontFamily'');
          width \<leftarrow> optional as_number (get_property ms ''width'');
          height \<leftarrow> optional as_number (get_property ms ''height'');
          color \<leftarrow> optional as_string (get_property ms ''color'');
          Some \<lparr> s_id = i, s_type = ty, s_x = vx, s_y = vy, s_pageId = pg,
                 s_radius = radius, s_x2 = x2, s_y2 = y2, s_points = points,
                 s_content = content, s_fontSize = fontSize, s_fontFamily = fontFamily,
                 s_width = width, s_height = height, s_color = color \<rparr> }"
| "shape_of_json _ = None"

fun shapes_of_json :: "json \<Rightarrow> shape list option" where
  "shapes_of_json (JArr vs) = those (map shape_of_json vs)"
| "shapes_of_json _ = None"

section \<open>Component state, local cache and remote requests\<close>

text \<open>
  The mutable ref \<^verbatim>\<open>dragState\<close>; \<^verbatim>\<open>shapeId\<close> is \<open>None\<close> for \<^verbatim>\<open>null\<close>.
\<close>

record dragRef =
  dragging :: bool
  offsetX :: real
  offsetY :: real
  shapeId :: "string option"

text \<open>
  A request sent with \<^verbatim>\<open>fetch\<close>: the page whose shapes are read, the shape that is
  created, or the id in the URL and the shape in the body of an update. Responses to
  \<open>POST\<close> and \<open>PUT\<close> are never read by the component.
\<close>

datatype request = GET string | POST shape | PUT string shape

text \<open>
  The exceptions of the source, and \<open>NotShapes\<close> for a cached value that is valid JSON
  but not a list of shapes of this model: the source stores such a value in the state as
  it is, which the shape model cannot represent.
\<close>

datatype error = SyntaxError | TypeError | NotShapes

text \<open>
  The React state of \<^verbatim>\<open>Whiteboard\<close>, the ref \<^verbatim>\<open>dragState\<close>, the text stored
  under the key \<^verbatim>\<open>'shapes'\<close> of the local cache (\<open>None\<close> when \<^verbatim>\<open>getItem\<close>
  returns \<^verbatim>\<open>null\<close>, the empty list of tokens for the empty text) and the requests
  sent so far, oldest first.
\<close>

record state =
  tool :: string
  shapes :: "shape list"
  isDrawing :: bool
  current :: "shape option"
  selectedId :: "string option"
  pageId :: string
  dragState :: dragRef
  localStorage :: "token list option"
  requests :: "request list"

text \<open>The initial values of the hooks, over a given cache.\<close>

definition initial :: "token list option \<Rightarrow> state" where
  "initial cache =
     \<lparr> tool = ''select'', shapes = [], isDrawing = False, current = None, selectedId = None,
       pageId = ''page_1'',
       dragState = \<lparr> dragging = False, offsetX = 0, offsetY = 0, shapeId = None \<rparr>,
       localStorage = cache, requests = [] \<rparr>"

text \<open>
  A shape literal of the source sets a few properties and leaves the others absent.
\<close>

definition new_shape :: "string \<Rightarrow> string \<Rightarrow> real \<Rightarrow> real \<Rightarrow> string \<Rightarrow> shape" where
  "new_shape i ty vx vy pg =
     \<lparr> s_id = i, s_type = ty, s_x = vx, s_y = vy, s_pageId = pg,
       s_radius = None, s_x2 = None, s_y2 = None, s_points = None, s_content = None,
       s_fontSize = None, s_fontFamily = None, s_width = None, s_height = None,
       s_color = None \<rparr>"

text \<open>
  The updater \<^verbatim>\<open>prev => { const next = ...; localStorage.setItem('shapes',
  JSON.stringify(next)); return next; }\<close> passed to \<^verbatim>\<open>setShapes\<close>.
\<close>

definition setShapes_persist :: "(shape list \<Rightarrow> shape list) \<Rightarrow> state \<Rightarrow> state" where
  "setShapes_persist f st =
     (let next = f (shapes st)
      in st\<lparr> shapes := next, localStorage := Some (JSON_stringify next) \<rparr>)"

definition fetch :: "request \<Rightarrow> state \<Rightarrow> state" where
  "fetch r st = st\<lparr> requests := requests st @ [r] \<rparr>"

section \<open>Startup: \<^verbatim>\<open>load\<close>\<close>

text \<open>
  What the \<open>GET\<close> of \<^verbatim>\<open>load\<close> comes back with: \<^verbatim>\<open>fetch\<close> rejects, or there
  is a response with its \<^verbatim>\<open>ok\<close> flag and a body; the body is \<open>None\<close> when
  \<^verbatim>\<open>res.json()\<close> rejects.
\<close>

datatype fetch_outcome = NetworkError | Response bool "shape list option"

text \<open>
  The part of \<^verbatim>\<open>load\<close> after the \<^verbatim>\<open>try\<close> block. \<^verbatim>\<open>if (saved)\<close> skips an
  absent item and the empty text; \<^verbatim>\<open>JSON.parse\<close> is outside the \<^verbatim>\<open>try\<close>, so a
  text it rejects ends \<^verbatim>\<open>load\<close> with the exception.
\<close>

definition load_fallback :: "state \<Rightarrow> error + state" where
  "load_fallback st =
     (case localStorage st of
        None \<Rightarrow> Inr st
      | Some saved \<Rightarrow>
          if saved = [] then Inr st
          else (case JSON_parse saved of
                  None \<Rightarrow> Inl SyntaxError
                | Some v \<Rightarrow>
                    (case shapes_of_json v of
                       None \<Rightarrow> Inl NotShapes
                     | Some l \<Rightarrow> Inr (st\<lparr> shapes := l \<rparr>))))"

definition load :: "fetch_outcome \<Rightarrow> state \<Rightarrow> error + state" where
  "load res st =
     (let st1 = fetch (GET (pageId st)) st
      in case res of
           Response True (Some data) \<Rightarrow>
             Inr (st1\<lparr> shapes := data, localStorage := Some (JSON_stringify data) \<rparr>)
         | _ \<Rightarrow> load_fallback st1)"

section \<open>Quick-add: \<^verbatim>\<open>addShape\<close>\<close>

text \<open>
  \<^verbatim>\<open>Date.now()\<close> and the three draws of \<^verbatim>\<open>Math.random()\<close> (for the id, for
  \<^verbatim>\<open>x\<close> and for \<^verbatim>\<open>y\<close>, in this order) are inputs.
\<close>

definition addShape_object :: "string \<Rightarrow> int \<Rightarrow> real \<Rightarrow> real \<Rightarrow> real \<Rightarrow> string \<Rightarrow> shape" where
  "addShape_object ty date_now r_id r_x r_y pg =
     (let s0 = new_shape (uid ''shape'' date_now r_id) ty (100 + r_x * 200) (80 + r_y * 200) pg;
          s1 = (if ty = ''circle'' then s0\<lparr> s_radius := Some 30 \<rparr> else s0);
          s2 = (if ty = ''line'' \<or> ty = ''arrow''
                then s1\<lparr> s_x2 := Some (s_x s1 + 80), s_y2 := Some (s_y s1 + 0) \<rparr> else s1);
          s3 = (if ty = ''text''
                then s2\<lparr> s_content := Some ''Text'', s_fontSize := Some 16 \<rparr> else s2)
      in s3)"

definition addShape :: "string \<Rightarrow> int \<Rightarrow> real \<Rightarrow> real \<Rightarrow> real \<Rightarrow> state \<Rightarrow> state" where
  "addShape ty date_now r_id r_x r_y st =
     (let s = addShape_object ty date_now r_id r_x r_y (pageId st)
      in fetch (POST s) (setShapes_persist (\<lambda>prev. prev @ [s]) st))"

section \<open>Pointer handlers\<close>

text \<open>
  A handler is a closure of the render in which it was created. It reads \<^verbatim>\<open>tool\<close>,
  \<^verbatim>\<open>shapes\<close>, \<^verbatim>\<open>isDrawing\<close>, \<^verbatim>\<open>current\<close> and \<^verbatim>\<open>pageId\<close> as they were at
  that render: the argument \<open>cl\<close>. An updater passed to \<^verbatim>\<open>setShapes\<close> or
  \<^verbatim>\<open>setCurrent\<close> receives the latest value, and the ref \<^verbatim>\<open>dragState\<close>, the cache
  and the requests are read and written in place: the argument \<open>st\<close>, which the handler
  returns updated. When React has rendered after the previous event, \<open>cl\<close> and \<open>st\<close>
  are the same state.
\<close>

record mouseEvent =
  clientX :: real
  clientY :: real

record rect =
  rect_left :: real
  rect_top :: real

text \<open>
  What a handler reads from outside the component: the bounding rectangle of the canvas,
  the clock, a random draw, and what the user answers to \<^verbatim>\<open>prompt\<close> (\<open>None\<close> when
  the dialog is cancelled).
\<close>

record io =
  canvasRect :: rect
  date_now :: int
  math_random :: real
  prompt :: "string option"

definition getPointerPos :: "io \<Rightarrow> mouseEvent \<Rightarrow> point" where
  "getPointerPos w e =
     \<lparr> p_x = clientX e - rect_left (canvasRect w), p_y = clientY e - rect_top (canvasRect w) \<rparr>"

definition handleMouseDown :: "io \<Rightarrow> mouseEvent \<Rightarrow> state \<Rightarrow> state \<Rightarrow> state" where
  "handleMouseDown w e cl st =
     (let p = getPointerPos w e
      in if tool cl = ''pencil'' then
           (let s = (new_shape (uid ''shape'' (date_now w) (math_random w)) ''pencil''
                        (p_x p) (p_y p) (pageId cl))
                      \<lparr> s_points := Some [\<lparr> p_x = p_x p, p_y = p_y p \<rparr>] \<rparr>
            in st\<lparr> isDrawing := True, current := Some s \<rparr>)
         else if tool cl = ''text'' then
           (case prompt w of
              None \<Rightarrow> st
            | Some text \<Rightarrow>
                if text = [] then st
                else (let s = (new_shape (uid ''shape'' (date_now w) (math_random w)) ''text''
                                 (p_x p) (p_y p) (pageId cl)) \<lparr> s_content := Some text \<rparr>
                      in fetch (POST s) (setShapes_persist (\<lambda>prev. prev @ [s]) st)))
         else
           (case findShapeAt p (shapes cl) of
              Some hit \<Rightarrow>
                st\<lparr> selectedId := Some (s_id hit),
                    dragState := \<lparr> dragging = True, offsetX = p_x p - s_x hit,
                                   offsetY = p_y p - s_y hit, shapeId = Some (s_id hit) \<rparr> \<rparr>
            | None \<Rightarrow> st\<lparr> selectedId := None \<rparr>))"

text \<open>
  The updater of the drag branch of \<^verbatim>\<open>handleMouseMove\<close>:
  \<^verbatim>\<open>prev.map(s => s.id !== id ? s : {...s, x: nx, y: ny})\<close>.
\<close>

definition drag_map :: "dragRef \<Rightarrow> point \<Rightarrow> shape list \<Rightarrow> shape list" where
  "drag_map d p prev =
     map (\<lambda>s. if Some (s_id s) \<noteq> shapeId d then s
              else (let nx = p_x p - offsetX d; ny = p_y p - offsetY d
                    in s\<lparr> s_x := nx, s_y := ny \<rparr>)) prev"

text \<open>
  The pencil branch is chosen by the values of the render; its updater
  \<^verbatim>\<open>prev => ({ ...prev, points: [...prev.points, p] })\<close> is applied to the latest
  draft, and reading \<^verbatim>\<open>prev.points\<close> throws when that draft is \<^verbatim>\<open>null\<close> or has
  no \<^verbatim>\<open>points\<close>.
\<close>

definition handleMouseMove :: "io \<Rightarrow> mouseEvent \<Rightarrow> state \<Rightarrow> state \<Rightarrow> error + state" where
  "handleMouseMove w e cl st =
     (let p = getPointerPos w e
      in if tool cl = ''pencil'' \<and> isDrawing cl \<and> current cl \<noteq> None then
           (case current st of
              None \<Rightarrow> Inl TypeError
            | Some prev \<Rightarrow>
                (case s_points prev of
                   None \<Rightarrow> Inl TypeError
                 | Some ps \<Rightarrow>
                     Inr (st\<lparr> current :=
                            Some (prev\<lparr> s_points := Some (ps @ [\<lparr> p_x = p_x p, p_y = p_y p \<rparr>]) \<rparr>) \<rparr>)))
         else if dragging (dragState st) then
           Inr (setShapes_persist (drag_map (dragState st) p) st)
         else Inr st)"

text \<open>
  \<^verbatim>\<open>const final = { ...current }\<close> copies the draft of the render, not the latest one;
  \<^verbatim>\<open>shapes.find\<close> in the drag branch searches the list of the render.
\<close>

definition handleMouseUp :: "io \<Rightarrow> mouseEvent \<Rightarrow> state \<Rightarrow> state \<Rightarrow> state" where
  "handleMouseUp w e cl st =
     (if tool cl = ''pencil'' \<and> isDrawing cl \<and> current cl \<noteq> None then
        (case current cl of
           None \<Rightarrow> st
         | Some final \<Rightarrow>
             (fetch (POST final) (setShapes_persist (\<lambda>prev. prev @ [final]) st))
               \<lparr> current := None, isDrawing := False \<rparr>)
      else if dragging (dragState st) then
        (let st1 = (case shapeId (dragState st) of
                      None \<Rightarrow> st
                    | Some i \<Rightarrow>
                        (case List.find (\<lambda>x. s_id x = i) (shapes cl) of
                           None \<Rightarrow> st
                         | Some s \<Rightarrow> fetch (PUT i s) st))
         in st1\<lparr> dragState := (dragState st1)\<lparr> dragging := False, shapeId := None \<rparr> \<rparr>)
      else st)"

text \<open>
  A run of pointer-move events, each with what it reads from outside, where React renders
  after every event, so that each handler is the closure of the state left by the previous
  one. The run stops at the first exception.
\<close>

fun moves :: "(io \<times> mouseEvent) list \<Rightarrow> state \<Rightarrow> error + state" where
  "moves [] st = Inr st"
| "moves ((w, e) # es) st =
     (case handleMouseMove w e st st of Inl err \<Rightarrow> Inl err | Inr st1 \<Rightarrow> moves es st1)"

section \<open>Rendering: \<^verbatim>\<open>draw\<close>\<close>

text \<open>
  The canvas is modelled by the calls made on its 2D context, in order. A coordinate of
  \<^verbatim>\<open>moveTo\<close> and \<^verbatim>\<open>lineTo\<close> is \<open>None\<close> when the source computes \<^verbatim>\<open>NaN\<close>
  (arithmetic on an absent \<^verbatim>\<open>x2\<close> or \<^verbatim>\<open>y2\<close>). The font is kept as its size and
  family instead of the text \<^verbatim>\<open>`${size}px ${family}`\<close>.
\<close>

datatype call =
    SetTransform real real real real real real
  | ClearRect real real real real
  | Scale real real
  | Save
  | Restore
  | Translate real real
  | BeginPath
  | Arc real real real real real
  | MoveTo "real option" "real option"
  | LineTo "real option" "real option"
  | ClosePath
  | Fill
  | Stroke
  | FillStyle string
  | StrokeStyle string
  | LineWidth real
  | Font real string
  | TextBaseline string
  | FillText string real real
  | FillRect real real real real
  | StrokeRect real real real real

record canvas =
  canvas_width :: real
  canvas_height :: real

text \<open>\<^verbatim>\<open>Math.atan2(y, x)\<close>, without the distinction of signed zeros.\<close>

definition atan2 :: "real \<Rightarrow> real \<Rightarrow> real" where
  "atan2 vy vx =
     (if vx > 0 then arctan (vy / vx)
      else if vx < 0 \<and> vy \<ge> 0 then arctan (vy / vx) + pi
      else if vx < 0 \<and> vy < 0 then arctan (vy / vx) - pi
      else if vy > 0 then pi / 2
      else if vy < 0 then - (pi / 2)
      else 0)"

text \<open>The calls between \<^verbatim>\<open>ctx.translate\<close> and \<^verbatim>\<open>ctx.restore\<close> for one shape.\<close>

definition draw_variant :: "shape \<Rightarrow> call list" where
  "draw_variant s =
     (if s_type s = ''circle'' then
        [BeginPath, Arc 0 0 (num_or (s_radius s) 30) 0 (pi * 2),
         FillStyle (str_or (s_color s) ''rgba(0,0,0,0.05)''), Fill,
         StrokeStyle ''black'', Stroke]
      else if s_type s = ''line'' then
        [BeginPath, MoveTo (Some 0) (Some 0),
         LineTo (map_option (\<lambda>v. v - s_x s) (s_x2 s)) (map_option (\<lambda>v. v - s_y s) (s_y2 s)),
         StrokeStyle ''black'', Stroke]
      else if s_type s = ''arrow'' then
        (let x2 = map_option (\<lambda>v. v - s_x s) (s_x2 s);
             y2 = map_option (\<lambda>v. v - s_y s) (s_y2 s);
             angle = (case (y2, x2) of (Some b, Some a) \<Rightarrow> Some (atan2 b a) | _ \<Rightarrow> None);
             head = (\<lambda>c t. case (c, angle) of
                              (Some v, Some a) \<Rightarrow> Some (v - 10 * t a) | _ \<Rightarrow> None)
         in [BeginPath, MoveTo (Some 0) (Some 0), LineTo x2 y2, Stroke,
             BeginPath, MoveTo x2 y2,
             LineTo (head x2 (\<lambda>a. cos (a - pi / 6))) (head y2 (\<lambda>a. sin (a - pi / 6))),
             LineTo (head x2 (\<lambda>a. cos (a + pi / 6))) (head y2 (\<lambda>a. sin (a + pi / 6))),
             ClosePath, FillStyle ''black'', Fill])
      else if s_type s = ''pencil'' then
        (let pts = (case s_points s of None \<Rightarrow> [] | Some ps \<Rightarrow> ps)
         in [BeginPath] @
            (case pts of
               [] \<Rightarrow> []
             | p0 # rest \<Rightarrow>
                 MoveTo (Some (p_x p0 - s_x s)) (Some (p_y p0 - s_y s)) #
                 map (\<lambda>p. LineTo (Some (p_x p - s_x s)) (Some (p_y p - s_y s))) rest) @
            [Stroke])
      else if s_type s = ''text'' then
        [FillStyle (str_or (s_color s) ''#000''),
         Font (num_or (s_fontSize s) 16) (str_or (s_fontFamily s) ''Arial''),
         TextBaseline ''top'',
         FillText (str_or (s_content s) []) 0 0]
      else
        [FillStyle (str_or (s_color s) ''rgba(0,0,0,0.05)''),
         FillRect 0 0 (num_or (s_width s) 60) (num_or (s_height s) 40),
         StrokeRect 0 0 (num_or (s_width s) 60) (num_or (s_height s) 40)])"

text \<open>The selection box, drawn when \<^verbatim>\<open>selectedId === s.id\<close>.\<close>

definition draw_selection :: "shape \<Rightarrow> call list" where
  "draw_selection s =
     (let w = num_or (s_width s)
                (case s_radius s of None \<Rightarrow> 60 | Some r \<Rightarrow> if r = 0 then 60 else r * 2);
          h = num_or (s_height s)
                (case s_radius s of None \<Rightarrow> 40 | Some r \<Rightarrow> if r = 0 then 40 else r * 2)
      in [Save, SetTransform 1 0 0 1 0 0, StrokeStyle ''#0ea5a4'', LineWidth 1,
          StrokeRect (s_x s - 6) (s_y s - 6) (w + 12) (h + 12), Restore])"

text \<open>The callback of \<^verbatim>\<open>shapes.forEach\<close> in \<^verbatim>\<open>draw\<close>.\<close>

definition draw_shape :: "string option \<Rightarrow> shape \<Rightarrow> call list" where
  "draw_shape sel s =
     [Save, Translate (num_or (Some (s_x s)) 0) (num_or (Some (s_y s)) 0)] @ draw_variant s @
     [Restore] @ (if sel = Some (s_id s) then draw_selection s else [])"

text \<open>
  \<^verbatim>\<open>draw\<close> reads the canvas of the ref (\<open>None\<close> before it is mounted),
  \<^verbatim>\<open>window.devicePixelRatio\<close>, and the component state.
\<close>

definition draw :: "canvas option \<Rightarrow> real option \<Rightarrow> state \<Rightarrow> call list" where
  "draw cv devicePixelRatio st =
     (case cv of
        None \<Rightarrow> []
      | Some c \<Rightarrow>
          (let ratio = num_or devicePixelRatio 1
           in [SetTransform 1 0 0 1 0 0, ClearRect 0 0 (canvas_width c) (canvas_height c),
               Scale ratio ratio] @
              concat (map (draw_shape (selectedId st)) (shapes st))))"

section \<open>The containment predicate of the specification\<close>

text \<open>
  The per-variant containment test in the words of the specification, over a rule
  \<open>dflt\<close> that says which value stands for an optional number: circle, Euclidean
  distance to the origin of the shape at most the radius (default 30); line and arrow,
  the bounding box of the two endpoints grown by 6 on all sides; pencil, the bounding box
  of the points of the stroke, not grown; any other variant, the box from \<open>(x, y)\<close> to
  \<open>(x + width, y + height)\<close> with the defaults 60 and 40. A line or arrow without a
  second endpoint and a stroke without points have no box.
\<close>

definition distance :: "point \<Rightarrow> real \<Rightarrow> real \<Rightarrow> real" where
  "distance pt cx cy = sqrt ((p_x pt - cx)\<^sup>2 + (p_y pt - cy)\<^sup>2)"

definition in_box :: "point \<Rightarrow> real \<Rightarrow> real \<Rightarrow> real \<Rightarrow> real \<Rightarrow> bool" where
  "in_box pt x0 y0 x1 y1 = (x0 \<le> p_x pt \<and> p_x pt \<le> x1 \<and> y0 \<le> p_y pt \<and> p_y pt \<le> y1)"

definition variant_contains :: "(real option \<Rightarrow> real \<Rightarrow> real) \<Rightarrow> point \<Rightarrow> shape \<Rightarrow> bool" where
  "variant_contains dflt pt s =
     (if s_type s = ''circle'' then distance pt (s_x s) (s_y s) \<le> dflt (s_radius s) 30
      else if s_type s \<in> {''line'', ''arrow''} then
        (case (s_x2 s, s_y2 s) of
           (Some x2, Some y2) \<Rightarrow>
             in_box pt (min (s_x s) x2 - 6) (min (s_y s) y2 - 6)
                       (max (s_x s) x2 + 6) (max (s_y s) y2 + 6)
         | _ \<Rightarrow> False)
      else if s_type s = ''pencil'' then
        (case s_points s of
           None \<Rightarrow> False
         | Some ps \<Rightarrow>
             ps \<noteq> [] \<and>
             in_box pt (Min (set (map p_x ps))) (Min (set (map p_y ps)))
                       (Max (set (map p_x ps))) (Max (set (map p_y ps))))
      else in_box pt (s_x s) (s_y s)
                  (s_x s + dflt (s_width s) 60) (s_y s + dflt (s_height s) 40))"

text \<open>The default applies when the field is absent.\<close>

definition when_absent :: "real option \<Rightarrow> real \<Rightarrow> real" where
  "when_absent v d = (case v of None \<Rightarrow> d | Some r \<Rightarrow> r)"

text \<open>The fetch of \<^verbatim>\<open>load\<close> failed: a network error, a response that is not a
  success, or a body that cannot be read.\<close>

fun fetch_failed :: "fetch_outcome \<Rightarrow> bool" where
  "fetch_failed NetworkError = True"
| "fetch_failed (Response ok body) = (\<not> ok \<or> body = None)"

section \<open>Example inputs\<close>

text \<open>
  A canvas whose bounding rectangle starts at the origin of the viewport, so that pointer
  positions equal client coordinates; a pointer event at a position; a session whose list
  holds one default rectangle at \<open>(100, 100)\<close>; a session with the pencil tool; and the
  session left by two calls of \<^verbatim>\<open>addShape('circle')\<close> in the same millisecond whose
  random draws for the id are \<open>0.5003\<close> and \<open>0.5009\<close>.
\<close>

definition io0 :: io where
  "io0 = \<lparr> canvasRect = \<lparr> rect_left = 0, rect_top = 0 \<rparr>, date_now = 1700000000000,
           math_random = 1 / 2, prompt = None \<rparr>"

definition pointer_at :: "real \<Rightarrow> real \<Rightarrow> mouseEvent" where
  "pointer_at vx vy = \<lparr> clientX = vx, clientY = vy \<rparr>"

definition one_rectangle :: state where
  "one_rectangle = (initial None)\<lparr> shapes := [new_shape ''s1'' ''rectangle'' 100 100 ''page_1''] \<rparr>"

definition pencil_session :: state where
  "pencil_session = (initial None)\<lparr> tool := ''pencil'' \<rparr>"

definition two_circles :: state where
  "two_circles =
     addShape ''circle'' 1700000000000 (5009 / 10000) (9 / 10) (1 / 10)
       (addShape ''circle'' 1700000000000 (5003 / 10000) (1 / 4) (3 / 4) (initial None))"

section \<open>Traversal order of the hit test\<close>

lemma findShapeAt_loop_find:
  "k \<le> length shs \<Longrightarrow>
   findShapeAt_loop pt shs k = List.find (returns_at pt) (rev (take k shs))"
proof (induction k)
  case 0
  show ?case by simp
next
  case (Suc k)
  then have k: "k < length shs" by simp
  then have "take (Suc k) shs = take k shs @ [shs ! k]"
    by (simp add: take_Suc_conv_app_nth)
  with Suc k show ?case by (simp add: Let_def)
qed

lemma findShapeAt_loop_greatest:
  "k \<le> length shs \<Longrightarrow> i < k \<Longrightarrow> returns_at pt (shs ! i) \<Longrightarrow>
   (\<forall>j. i < j \<and> j < k \<longrightarrow> \<not> returns_at pt (shs ! j)) \<Longrightarrow>
   findShapeAt_loop pt shs k = Some (shs ! i)"
proof (induction k)
  case 0
  then show ?case by simp
next
  case (Suc k)
  show ?case
  proof (cases "i = k")
    case True
    with Suc.prems show ?thesis by simp
  next
    case False
    with Suc.prems have ik: "i < k" and nk: "\<not> returns_at pt (shs ! k)" by auto
    from Suc.prems have "\<forall>j. i < j \<and> j < k \<longrightarrow> \<not> returns_at pt (shs ! j)" by auto
    with Suc.IH Suc.prems ik have "findShapeAt_loop pt shs k = Some (shs ! i)" by simp
    with nk show ?thesis by simp
  qed
qed

lemma findShapeAt_loop_none:
  "(\<forall>j < k. \<not> returns_at pt (shs ! j)) \<Longrightarrow> findShapeAt_loop pt shs k = None"
  by (induction k) simp_all

lemma sqrt_le_radius: "0 \<le> r \<Longrightarrow> (sqrt a \<le> r) = (a \<le> r * r)"
  by (metis abs_of_nonneg real_sqrt_abs2 real_sqrt_le_iff)

text \<open>
  Claim C2. \<^verbatim>\<open>findShapeAt\<close> walks the list from its last element to its first and
  returns the first shape at which the body of the loop returns: it is the search for the
  first match in the reversed list. So when an index \<open>i\<close> contains the point and no
  higher index does, the shape at \<open>i\<close> is the result, whatever the variants of the
  shapes are; and when no index contains the point the result is \<open>None\<close> (no hit).
\<close>

theorem findShapeAt_topmost:
  "findShapeAt pt shs = List.find (returns_at pt) (rev shs) \<and>
   (\<forall>i < length shs. returns_at pt (shs ! i) \<and>
        (\<forall>j. i < j \<and> j < length shs \<longrightarrow> \<not> returns_at pt (shs ! j)) \<longrightarrow>
        findShapeAt pt shs = Some (shs ! i)) \<and>
   ((\<forall>i < length shs. \<not> returns_at pt (shs ! i)) \<longrightarrow> findShapeAt pt shs = None)"
proof (intro conjI allI impI)
  show "findShapeAt pt shs = List.find (returns_at pt) (rev shs)"
    by (simp add: findShapeAt_def findShapeAt_loop_find)
next
  fix i
  assume "i < length shs"
    and "returns_at pt (shs ! i) \<and> (\<forall>j. i < j \<and> j < length shs \<longrightarrow> \<not> returns_at pt (shs ! j))"
  then show "findShapeAt pt shs = Some (shs ! i)"
    unfolding findShapeAt_def by (intro findShapeAt_loop_greatest) auto
next
  assume "\<forall>i < length shs. \<not> returns_at pt (shs ! i)"
  then show "findShapeAt pt shs = None"
    unfolding findShapeAt_def by (rule findShapeAt_loop_none)
qed

text \<open>
  A default rectangle at the origin below a circle of radius 30 around \<open>(10, 10)\<close>: the
  point \<open>(13, 14)\<close> lies in both, and the circle, later in the list, is returned. The
  point \<open>(500, 500)\<close> lies in neither.
\<close>

theorem findShapeAt_topmost_witness:
  "returns_at \<lparr>p_x = 13, p_y = 14\<rparr> (new_shape ''r'' ''rectangle'' 0 0 ''page_1'') \<and>
   returns_at \<lparr>p_x = 13, p_y = 14\<rparr>
     ((new_shape ''c'' ''circle'' 10 10 ''page_1'')\<lparr>s_radius := Some 30\<rparr>) \<and>
   findShapeAt \<lparr>p_x = 13, p_y = 14\<rparr>
     [new_shape ''r'' ''rectangle'' 0 0 ''page_1'',
      (new_shape ''c'' ''circle'' 10 10 ''page_1'')\<lparr>s_radius := Some 30\<rparr>]
     = Some ((new_shape ''c'' ''circle'' 10 10 ''page_1'')\<lparr>s_radius := Some 30\<rparr>) \<and>
   findShapeAt \<lparr>p_x = 500, p_y = 500\<rparr>
     [new_shape ''r'' ''rectangle'' 0 0 ''page_1'',
      (new_shape ''c'' ''circle'' 10 10 ''page_1'')\<lparr>s_radius := Some 30\<rparr>]
     = None"
proof -
  let ?P = "\<lparr>p_x = 13, p_y = 14\<rparr>"
  let ?Q = "\<lparr>p_x = 500, p_y = 500\<rparr>"
  let ?R = "new_shape ''r'' ''rectangle'' 0 0 ''page_1''"
  let ?C = "(new_shape ''c'' ''circle'' 10 10 ''page_1'')\<lparr>s_radius := Some 30\<rparr>"
  have r: "returns_at ?P ?R"
    by (simp add: returns_at_def new_shape_def)
  have c: "returns_at ?P ?C"
    by (simp add: returns_at_def new_shape_def sqrt_le_radius)
  have nr: "\<not> returns_at ?Q ?R"
    by (simp add: returns_at_def new_shape_def)
  have nc: "\<not> returns_at ?Q ?C"
    by (simp add: returns_at_def new_shape_def sqrt_le_radius)
  have top: "returns_at ?P ([?R, ?C] ! 1) \<and>
        (\<forall>j. 1 < j \<and> j < length [?R, ?C] \<longrightarrow> \<not> returns_at ?P ([?R, ?C] ! j))"
    using c by simp
  have none: "\<forall>i < length [?R, ?C]. \<not> returns_at ?Q ([?R, ?C] ! i)"
    using nr nc by (simp add: less_Suc_eq)
  from findShapeAt_topmost [of ?P "[?R, ?C]"]
  have "\<forall>i < length [?R, ?C]. returns_at ?P ([?R, ?C] ! i) \<and>
        (\<forall>j. i < j \<and> j < length [?R, ?C] \<longrightarrow> \<not> returns_at ?P ([?R, ?C] ! j)) \<longrightarrow>
        findShapeAt ?P [?R, ?C] = Some ([?R, ?C] ! i)"
    by (rule conjunct1 [OF conjunct2])
  then have "1 < length [?R, ?C] \<longrightarrow> returns_at ?P ([?R, ?C] ! 1) \<and>
        (\<forall>j. 1 < j \<and> j < length [?R, ?C] \<longrightarrow> \<not> returns_at ?P ([?R, ?C] ! j)) \<longrightarrow>
        findShapeAt ?P [?R, ?C] = Some ([?R, ?C] ! 1)"
    by (rule spec)
  moreover have "1 < length [?R, ?C]" by simp
  ultimately have "returns_at ?P ([?R, ?C] ! 1) \<and>
        (\<forall>j. 1 < j \<and> j < length [?R, ?C] \<longrightarrow> \<not> returns_at ?P ([?R, ?C] ! j)) \<longrightarrow>
        findShapeAt ?P [?R, ?C] = Some ([?R, ?C] ! 1)"
    by (rule mp)
  from this top have "findShapeAt ?P [?R, ?C] = Some ([?R, ?C] ! 1)" by (rule mp)
  then have hit: "findShapeAt ?P [?R, ?C] = Some ?C" by simp
  from findShapeAt_topmost [of ?Q "[?R, ?C]"]
  have "(\<forall>i < length [?R, ?C]. \<not> returns_at ?Q ([?R, ?C] ! i)) \<longrightarrow> findShapeAt ?Q [?R, ?C] = None"
    by (rule conjunct2 [OF conjunct2])
  with none have miss: "findShapeAt ?Q [?R, ?C] = None" by (rule rev_mp)
  from r c hit miss show ?thesis by simp
qed

section \<open>The hit test on a single shape\<close>

lemma Min_insert_min:
  "finite S \<Longrightarrow> Min (insert (min a v) S) = Min (insert (a::real) (insert v S))"
  by (cases "S = {}") (simp_all add: min.assoc)

lemma Max_insert_max:
  "finite S \<Longrightarrow> Max (insert (max a v) S) = Max (insert (a::real) (insert v S))"
  by (cases "S = {}") (simp_all add: max.assoc)

lemma bbox_forEach_Num:
  "minX b = Num a0 \<Longrightarrow> minY b = Num b0 \<Longrightarrow> maxX b = Num a1 \<Longrightarrow> maxY b = Num b1 \<Longrightarrow>
   bbox_forEach b ps =
     \<lparr> minX = Num (Min (insert a0 (set (map p_x ps)))),
       minY = Num (Min (insert b0 (set (map p_y ps)))),
       maxX = Num (Max (insert a1 (set (map p_x ps)))),
       maxY = Num (Max (insert b1 (set (map p_y ps)))) \<rparr>"
proof (induction ps arbitrary: b a0 b0 a1 b1)
  case Nil
  then show ?case by simp
next
  case (Cons p ps)
  have "bbox_forEach (bbox_step b p) ps =
     \<lparr> minX = Num (Min (insert (min a0 (p_x p)) (set (map p_x ps)))),
       minY = Num (Min (insert (min b0 (p_y p)) (set (map p_y ps)))),
       maxX = Num (Max (insert (max a1 (p_x p)) (set (map p_x ps)))),
       maxY = Num (Max (insert (max b1 (p_y p)) (set (map p_y ps)))) \<rparr>"
    by (rule Cons.IH) (simp_all add: bbox_step_def Cons.prems)
  then show ?case by (simp add: Min_insert_min Max_insert_max)
qed

lemma bbox_forEach_init:
  "ps \<noteq> [] \<Longrightarrow>
   bbox_forEach bbox_init ps =
     \<lparr> minX = Num (Min (set (map p_x ps))), minY = Num (Min (set (map p_y ps))),
       maxX = Num (Max (set (map p_x ps))), maxY = Num (Max (set (map p_y ps))) \<rparr>"
proof (cases ps)
  case Nil
  assume "ps \<noteq> []"
  with Nil show ?thesis by simp
next
  case (Cons p qs)
  have "bbox_forEach (bbox_step bbox_init p) qs =
     \<lparr> minX = Num (Min (insert (p_x p) (set (map p_x qs)))),
       minY = Num (Min (insert (p_y p) (set (map p_y qs)))),
       maxX = Num (Max (insert (p_x p) (set (map p_x qs)))),
       maxY = Num (Max (insert (p_y p) (set (map p_y qs)))) \<rparr>"
    by (rule bbox_forEach_Num) (simp_all add: bbox_step_def bbox_init_def)
  with Cons show ?thesis by simp
qed

lemma returns_at_contains: "returns_at pt s = variant_contains num_or pt s"
proof (cases "s_type s = ''pencil''")
  case True
  show ?thesis
  proof (cases "s_points s")
    case None
    with True show ?thesis by (simp add: returns_at_def variant_contains_def)
  next
    case (Some ps)
    show ?thesis
    proof (cases "ps = []")
      case True
      with Some \<open>s_type s = ''pencil''\<close> show ?thesis
        by (simp add: returns_at_def variant_contains_def)
    next
      case False
      with Some \<open>s_type s = ''pencil''\<close> show ?thesis
        by (simp add: returns_at_def variant_contains_def bbox_forEach_init in_box_def)
    qed
  qed
next
  case False
  then show ?thesis
    by (auto simp: returns_at_def variant_contains_def in_box_def distance_def
          power2_eq_square Let_def split: option.splits)
qed

text \<open>
  Claim C3, as amended. On the list of one shape \<open>s\<close>, \<^verbatim>\<open>findShapeAt\<close> returns
  \<open>s\<close> exactly when the point satisfies the containment predicate of the variant of
  \<open>s\<close>, and \<open>None\<close> otherwise, where a radius, width or height that is absent or
  zero takes its default (30, 60, 40).
\<close>

theorem findShapeAt_single:
  "(findShapeAt pt [s] = Some s) = variant_contains num_or pt s \<and>
   (findShapeAt pt [s] = None) = (\<not> variant_contains num_or pt s)"
  by (simp add: findShapeAt_def returns_at_contains)

text \<open>
  With the default applied only to an absent field the equivalence fails: a circle of
  radius 0 around the origin is hit at \<open>(10, 0)\<close>, at distance 10 from its centre, since
  \<^verbatim>\<open>s.radius || 30\<close> reads the radius 0 as 30.
\<close>

theorem findShapeAt_single_counterexample:
  "findShapeAt \<lparr>p_x = 10, p_y = 0\<rparr> [(new_shape ''c'' ''circle'' 0 0 ''page_1'')\<lparr>s_radius := Some 0\<rparr>]
     = Some ((new_shape ''c'' ''circle'' 0 0 ''page_1'')\<lparr>s_radius := Some 0\<rparr>) \<and>
   \<not> variant_contains when_absent \<lparr>p_x = 10, p_y = 0\<rparr>
        ((new_shape ''c'' ''circle'' 0 0 ''page_1'')\<lparr>s_radius := Some 0\<rparr>)"
  by (simp add: findShapeAt_def returns_at_def variant_contains_def when_absent_def
        distance_def new_shape_def sqrt_le_radius)

text \<open>A stroke through \<open>(0,0)\<close>, \<open>(5,5)\<close>, \<open>(10,0)\<close> is hit at \<open>(5,3)\<close>.\<close>

theorem findShapeAt_single_witness:
  "findShapeAt \<lparr>p_x = 5, p_y = 3\<rparr>
     [(new_shape ''p'' ''pencil'' 0 0 ''page_1'')
        \<lparr>s_points := Some [\<lparr>p_x = 0, p_y = 0\<rparr>, \<lparr>p_x = 5, p_y = 5\<rparr>, \<lparr>p_x = 10, p_y = 0\<rparr>]\<rparr>]
   = Some ((new_shape ''p'' ''pencil'' 0 0 ''page_1'')
        \<lparr>s_points := Some [\<lparr>p_x = 0, p_y = 0\<rparr>, \<lparr>p_x = 5, p_y = 5\<rparr>, \<lparr>p_x = 10, p_y = 0\<rparr>]\<rparr>)"
  using findShapeAt_single [of "\<lparr>p_x = 5, p_y = 3\<rparr>"
     "(new_shape ''p'' ''pencil'' 0 0 ''page_1'')
        \<lparr>s_points := Some [\<lparr>p_x = 0, p_y = 0\<rparr>, \<lparr>p_x = 5, p_y = 5\<rparr>, \<lparr>p_x = 10, p_y = 0\<rparr>]\<rparr>"]
  by (simp add: variant_contains_def in_box_def new_shape_def)

section \<open>Serialising and parsing\<close>

lemma serialize_first:
  "\<exists>t ts. serialize v = t # ts \<and> t \<noteq> RBracket \<and> t \<noteq> RBrace"
  by (cases v) auto

lemma parse_value_array:
  "t \<noteq> RBracket \<Longrightarrow>
   parse_value (LBracket # t # ts) =
     (case parse_elements (t # ts) of None \<Rightarrow> None | Some (vs, r) \<Rightarrow> Some (JArr vs, r))"
  by (cases t) simp_all

lemma parse_value_object:
  "parse_value (LBrace # TStr k # ts) =
     (case parse_members (TStr k # ts) of None \<Rightarrow> None | Some (ms, r) \<Rightarrow> Some (JObj ms, r))"
  by simp

lemma parse_serialize:
  "parse_value (serialize v @ rest) = Some (v, rest)"
  "vs \<noteq> [] \<Longrightarrow> parse_elements (serialize_elements vs @ RBracket # rest) = Some (vs, rest)"
  "ms \<noteq> [] \<Longrightarrow> parse_members (serialize_members ms @ RBrace # rest) = Some (ms, rest)"
proof (induction v and vs and ms arbitrary: rest and rest and rest
       rule: serialize_serialize_elements_serialize_members.induct)
  case (5 vs)
  show ?case
  proof (cases vs)
    case Nil
    then show ?thesis by simp
  next
    case (Cons w ws)
    obtain t ts where t: "serialize w = t # ts" "t \<noteq> RBracket"
      using serialize_first by blast
    then obtain ts1 where ts1: "serialize_elements vs @ RBracket # rest = t # ts1"
      using Cons by (cases ws) simp_all
    have "parse_elements (serialize_elements vs @ RBracket # rest) = Some (vs, rest)"
      using 5 Cons by simp
    then have "parse_elements (t # ts1) = Some (vs, rest)"
      unfolding ts1 .
    then have "parse_value (LBracket # t # ts1) = Some (JArr vs, rest)"
      using t(2) by (simp add: parse_value_array del: parse_value.simps)
    with ts1 show ?thesis by simp
  qed
next
  case (6 ms)
  show ?case
  proof (cases ms)
    case Nil
    then show ?thesis by simp
  next
    case (Cons kv ws)
    obtain k v where kv: "kv = (k, v)" by (cases kv)
    obtain ts1 where ts1: "serialize_members ms @ RBrace # rest = TStr k # ts1"
      using Cons kv by (cases ws) simp_all
    have "parse_members (serialize_members ms @ RBrace # rest) = Some (ms, rest)"
      using 6 Cons by simp
    then have "parse_members (TStr k # ts1) = Some (ms, rest)"
      unfolding ts1 .
    then have "parse_value (LBrace # TStr k # ts1) = Some (JObj ms, rest)"
      by (simp add: parse_value_object del: parse_value.simps)
    with ts1 show ?thesis by simp
  qed
next
  case (8 v)
  then show ?case by (simp add: parse_elements.simps)
next
  case (9 v w vs)
  have "parse_value (serialize v @ Comma # serialize_elements (w # vs) @ RBracket # rest) =
          Some (v, Comma # serialize_elements (w # vs) @ RBracket # rest)"
    using 9(1) by simp
  moreover have "parse_elements (serialize_elements (w # vs) @ RBracket # rest) = Some (w # vs, rest)"
    using 9(2) by simp
  ultimately show ?case
    by (subst parse_elements.simps) simp
next
  case (11 k v)
  then show ?case by (simp add: parse_members.simps)
next
  case (12 k v m ms)
  have "parse_value (serialize v @ Comma # serialize_members (m # ms) @ RBrace # rest) =
          Some (v, Comma # serialize_members (m # ms) @ RBrace # rest)"
    using 12(1) by simp
  moreover have "parse_members (serialize_members (m # ms) @ RBrace # rest) = Some (m # ms, rest)"
    using 12(2) by simp
  ultimately show ?case
    by (subst parse_members.simps) simp
qed simp_all


lemma get_Cons_neq: "k \<noteq> k1 \<Longrightarrow> get_property ((k1, v) # ms) k = get_property ms k"
  by (simp split: option.splits)

lemma get_Cons_eq: "get_property ms k = None \<Longrightarrow> get_property ((k, v) # ms) k = Some v"
  by simp

lemma get_opt_neq: "k \<noteq> k1 \<Longrightarrow> get_property (opt k1 o1 @ ms) k = get_property ms k"
  by (cases o1) (simp_all split: option.splits)

lemma get_opt_eq: "get_property ms k = None \<Longrightarrow> get_property (opt k o1 @ ms) k = o1"
  by (cases o1) simp_all

lemma get_opt_last: "get_property (opt k1 o1) k = (if k = k1 then o1 else None)"
  by (cases o1) simp_all

lemmas get_simps = get_Cons_neq get_Cons_eq get_opt_neq get_opt_eq get_opt_last

lemma point_round_trip: "point_of_json (point_json p) = Some p"
  by (simp add: point_json_def)

lemma points_round_trip: "those (map (point_of_json \<circ> point_json) ps) = Some ps"
  by (induction ps) (simp_all add: point_round_trip)

lemma optional_number: "optional as_number (map_option JNum a) = Some a"
  by (cases a) simp_all

lemma optional_string: "optional as_string (map_option JStr b) = Some b"
  by (cases b) simp_all

lemma optional_points:
  "optional as_points (map_option (\<lambda>ps. JArr (map point_json ps)) c) = Some c"
  by (cases c) (simp_all add: points_round_trip)

lemma shape_round_trip: "shape_of_json (shape_json s) = Some s"
  unfolding shape_json_def
  by (simp add: get_simps optional_number optional_string optional_points del: get_property.simps)

lemma shape_list_round_trip: "those (map (shape_of_json \<circ> shape_json) l) = Some l"
  by (induction l) (simp_all add: shape_round_trip)

lemma shapes_round_trip: "shapes_of_json (JArr (map shape_json l)) = Some l"
  by (simp add: shape_list_round_trip)

lemma JSON_round_trip: "JSON_parse (JSON_stringify l) = Some (JArr (map shape_json l))"
  using parse_serialize(1) [of "JArr (map shape_json l)" "[]"]
  by (simp add: JSON_parse_def JSON_stringify_def del: serialize.simps)

lemma JSON_stringify_neq_Nil: "JSON_stringify l \<noteq> []"
  by (simp add: JSON_stringify_def)

section \<open>Dragging\<close>

text \<open>
  The updater of a drag move compares ids only: a shape whose id is not the id of the
  session is left as it is, and every shape that carries that id gets the new origin and
  keeps its other fields.
\<close>

lemma drag_map_nth:
  "i < length l \<Longrightarrow>
   drag_map d p l ! i =
     (if Some (s_id (l ! i)) = shapeId d
      then (l ! i)\<lparr> s_x := p_x p - offsetX d, s_y := p_y p - offsetY d \<rparr>
      else l ! i)"
  by (simp add: drag_map_def Let_def)

lemma drag_map_length: "length (drag_map d p l) = length l"
  by (simp add: drag_map_def)

lemma down_one_rectangle:
  "handleMouseDown io0 (pointer_at 110 105) one_rectangle one_rectangle =
     one_rectangle\<lparr> selectedId := Some ''s1'',
        dragState := \<lparr> dragging = True, offsetX = 10, offsetY = 5, shapeId = Some ''s1'' \<rparr> \<rparr>"
  by (simp add: handleMouseDown_def one_rectangle_def initial_def getPointerPos_def io0_def
        pointer_at_def findShapeAt_def returns_at_def new_shape_def)

lemma uid_500:
  "uid ''shape'' 1700000000000 (5003 / 10000) = ''shape_1700000000000_500''"
  "uid ''shape'' 1700000000000 (5009 / 10000) = ''shape_1700000000000_500''"
  "uid ''shape'' 1700000000000 (1 / 2) = ''shape_1700000000000_500''"
  by (simp_all add: uid_def str_of_int_def str_of_nat.simps digit_def)

lemma shapes_two_circles:
  "shapes two_circles =
     [(new_shape ''shape_1700000000000_500'' ''circle'' 150 230 ''page_1'')\<lparr> s_radius := Some 30 \<rparr>,
      (new_shape ''shape_1700000000000_500'' ''circle'' 280 100 ''page_1'')\<lparr> s_radius := Some 30 \<rparr>]"
  by (simp add: two_circles_def addShape_def addShape_object_def setShapes_persist_def
        fetch_def initial_def Let_def uid_500 new_shape_def)

lemma tool_two_circles: "tool two_circles = ''select''"
  by (simp add: two_circles_def addShape_def setShapes_persist_def fetch_def initial_def Let_def)

lemma down_two_circles:
  "handleMouseDown io0 (pointer_at 280 100) two_circles two_circles =
     two_circles\<lparr> selectedId := Some ''shape_1700000000000_500'',
        dragState := \<lparr> dragging = True, offsetX = 0, offsetY = 0,
                       shapeId = Some ''shape_1700000000000_500'' \<rparr> \<rparr>"
  by (simp add: handleMouseDown_def tool_two_circles shapes_two_circles getPointerPos_def
        io0_def pointer_at_def findShapeAt_def returns_at_def new_shape_def)

text \<open>
  Claim C4. A pointer-move of a drag session should set the origin of the dragged shape
  to the pointer minus the recorded offset and change no other shape. On the list left by
  two quick-adds that received the same id (circles at \<open>(150, 230)\<close> and \<open>(280, 100)\<close>)
  it changes another shape: the pointer-down at \<open>(280, 100)\<close> grabs the second circle
  with offset \<open>(0, 0)\<close>, and the move to \<open>(300, 120)\<close> returns normally and puts both
  circles at \<open>(300, 120)\<close>.
\<close>

theorem drag_moves_same_id:
  "shapes two_circles =
     [(new_shape ''shape_1700000000000_500'' ''circle'' 150 230 ''page_1'')\<lparr> s_radius := Some 30 \<rparr>,
      (new_shape ''shape_1700000000000_500'' ''circle'' 280 100 ''page_1'')\<lparr> s_radius := Some 30 \<rparr>] \<and>
   dragState (handleMouseDown io0 (pointer_at 280 100) two_circles two_circles) =
     \<lparr> dragging = True, offsetX = 0, offsetY = 0, shapeId = Some ''shape_1700000000000_500'' \<rparr> \<and>
   \<not> isl (handleMouseMove io0 (pointer_at 300 120)
            (handleMouseDown io0 (pointer_at 280 100) two_circles two_circles)
            (handleMouseDown io0 (pointer_at 280 100) two_circles two_circles)) \<and>
   shapes (projr (handleMouseMove io0 (pointer_at 300 120)
            (handleMouseDown io0 (pointer_at 280 100) two_circles two_circles)
            (handleMouseDown io0 (pointer_at 280 100) two_circles two_circles))) =
     [(new_shape ''shape_1700000000000_500'' ''circle'' 300 120 ''page_1'')\<lparr> s_radius := Some 30 \<rparr>,
      (new_shape ''shape_1700000000000_500'' ''circle'' 300 120 ''page_1'')\<lparr> s_radius := Some 30 \<rparr>]"
  unfolding down_two_circles
  by (simp add: handleMouseMove_def tool_two_circles shapes_two_circles setShapes_persist_def
        drag_map_def getPointerPos_def io0_def pointer_at_def new_shape_def Let_def)

section \<open>Pencil strokes\<close>

lemma moves_pencil:
  "tool st = ''pencil'' \<Longrightarrow> isDrawing st \<Longrightarrow> current st = Some d \<Longrightarrow> s_points d = Some ps \<Longrightarrow>
   moves evs st =
     Inr (st\<lparr> current := Some (d\<lparr> s_points := Some (ps @ map (\<lambda>(w, e). getPointerPos w e) evs) \<rparr>) \<rparr>)"
proof (induction evs arbitrary: st d ps)
  case Nil
  then show ?case by simp
next
  case (Cons we evs)
  obtain w e where we: "we = (w, e)" by (cases we)
  let ?d = "d\<lparr> s_points := Some (ps @ [getPointerPos w e]) \<rparr>"
  let ?st = "st\<lparr> current := Some ?d \<rparr>"
  have step: "handleMouseMove w e st st = Inr ?st"
    using Cons.prems by (simp add: handleMouseMove_def Let_def)
  have "moves evs ?st =
     Inr (?st\<lparr> current := Some (?d\<lparr> s_points :=
        Some ((ps @ [getPointerPos w e]) @ map (\<lambda>(w, e). getPointerPos w e) evs) \<rparr>) \<rparr>)"
    by (rule Cons.IH) (simp_all add: Cons.prems)
  with step we show ?case by simp
qed

lemma down_pencil:
  "tool cl = ''pencil'' \<Longrightarrow>
   handleMouseDown w e cl st =
     st\<lparr> isDrawing := True,
         current := Some ((new_shape (uid ''shape'' (date_now w) (math_random w)) ''pencil''
             (p_x (getPointerPos w e)) (p_y (getPointerPos w e)) (pageId cl))
           \<lparr> s_points := Some [getPointerPos w e] \<rparr>) \<rparr>"
  by (simp add: handleMouseDown_def Let_def)

lemma pencil_gesture:
  assumes "tool st = ''pencil''"
  shows "moves evs (handleMouseDown w e st st) =
     Inr (st\<lparr> isDrawing := True,
         current := Some ((new_shape (uid ''shape'' (date_now w) (math_random w)) ''pencil''
             (p_x (getPointerPos w e)) (p_y (getPointerPos w e)) (pageId st))
           \<lparr> s_points := Some (getPointerPos w e # map (\<lambda>(w, e). getPointerPos w e) evs) \<rparr>) \<rparr>)"
proof -
  let ?d = "(new_shape (uid ''shape'' (date_now w) (math_random w)) ''pencil''
             (p_x (getPointerPos w e)) (p_y (getPointerPos w e)) (pageId st))
           \<lparr> s_points := Some [getPointerPos w e] \<rparr>"
  let ?st = "st\<lparr> isDrawing := True, current := Some ?d \<rparr>"
  have "moves evs ?st =
     Inr (?st\<lparr> current := Some (?d\<lparr> s_points :=
        Some ([getPointerPos w e] @ map (\<lambda>(w, e). getPointerPos w e) evs) \<rparr>) \<rparr>)"
    by (rule moves_pencil) (simp_all add: assms)
  then show ?thesis by (simp add: down_pencil [OF assms])
qed

text \<open>
  When React renders after every event, the pointer-up commits one pencil shape whose
  points are the position of the pointer-down followed by the position of every move.
\<close>

lemma pencil_stroke_rendered:
  assumes "tool st = ''pencil''"
  shows "\<exists>st1. moves evs (handleMouseDown w e st st) = Inr st1 \<and>
     shapes st1 = shapes st \<and>
     shapes (handleMouseUp w1 e1 st1 st1) =
       shapes st @
       [(new_shape (uid ''shape'' (date_now w) (math_random w)) ''pencil''
           (p_x (getPointerPos w e)) (p_y (getPointerPos w e)) (pageId st))
          \<lparr> s_points := Some (getPointerPos w e # map (\<lambda>(w, e). getPointerPos w e) evs) \<rparr>]"
  by (simp add: pencil_gesture [OF assms] handleMouseUp_def assms setShapes_persist_def
        fetch_def Let_def)

lemma down_pencil_session:
  "handleMouseDown io0 (pointer_at 0 0) pencil_session pencil_session =
     pencil_session\<lparr> isDrawing := True,
        current := Some ((new_shape ''shape_1700000000000_500'' ''pencil'' 0 0 ''page_1'')
                           \<lparr> s_points := Some [\<lparr>p_x = 0, p_y = 0\<rparr>] \<rparr>) \<rparr>"
  by (simp add: handleMouseDown_def pencil_session_def initial_def getPointerPos_def io0_def
        pointer_at_def uid_500 Let_def)

text \<open>
  Claim C5. A pointer-down with the pencil tool followed by \<open>n\<close> moves and the
  pointer-up should commit one pencil shape with \<open>n + 1\<close> points, however fast the
  moves arrive. Here the pointer-down at \<open>(0,0)\<close> is rendered, and the moves to
  \<open>(5,5)\<close> and \<open>(10,0)\<close> and the pointer-up arrive before the next render, so the
  three handlers are closures of the render that followed the pointer-down. The latest
  draft then holds the three points, and the shape that is committed holds one:
  \<^verbatim>\<open>handleMouseUp\<close> copies the draft of its render, which has only the first point.
\<close>

theorem pencil_commit_stale:
  "current (handleMouseDown io0 (pointer_at 0 0) pencil_session pencil_session) =
     Some ((new_shape ''shape_1700000000000_500'' ''pencil'' 0 0 ''page_1'')
             \<lparr> s_points := Some [\<lparr>p_x = 0, p_y = 0\<rparr>] \<rparr>) \<and>
   current (projr (handleMouseMove io0 (pointer_at 10 0)
      (handleMouseDown io0 (pointer_at 0 0) pencil_session pencil_session)
      (projr (handleMouseMove io0 (pointer_at 5 5)
         (handleMouseDown io0 (pointer_at 0 0) pencil_session pencil_session)
         (handleMouseDown io0 (pointer_at 0 0) pencil_session pencil_session))))) =
     Some ((new_shape ''shape_1700000000000_500'' ''pencil'' 0 0 ''page_1'')
             \<lparr> s_points := Some [\<lparr>p_x = 0, p_y = 0\<rparr>, \<lparr>p_x = 5, p_y = 5\<rparr>, \<lparr>p_x = 10, p_y = 0\<rparr>] \<rparr>) \<and>
   shapes (handleMouseUp io0 (pointer_at 10 0)
      (handleMouseDown io0 (pointer_at 0 0) pencil_session pencil_session)
      (projr (handleMouseMove io0 (pointer_at 10 0)
         (handleMouseDown io0 (pointer_at 0 0) pencil_session pencil_session)
         (projr (handleMouseMove io0 (pointer_at 5 5)
            (handleMouseDown io0 (pointer_at 0 0) pencil_session pencil_session)
            (handleMouseDown io0 (pointer_at 0 0) pencil_session pencil_session)))))) =
     [(new_shape ''shape_1700000000000_500'' ''pencil'' 0 0 ''page_1'')
        \<lparr> s_points := Some [\<lparr>p_x = 0, p_y = 0\<rparr>] \<rparr>]"
  unfolding down_pencil_session
  by (simp add: handleMouseMove_def handleMouseUp_def setShapes_persist_def fetch_def
        pencil_session_def initial_def getPointerPos_def io0_def pointer_at_def Let_def)

section \<open>When changes are persisted\<close>

text \<open>
  Claim C1, as amended. A pointer-move of a drag session overwrites the local cache with
  the repositioned list and sends no request; the \<open>PUT\<close> of the dragged shape is sent
  once, by the pointer-up that ends the session. A pencil draft touches neither the shape
  list, nor the cache, nor the remote store while it is drawn (pointer-down and moves); the
  pointer-up appends it, overwrites the cache and sends the \<open>POST\<close>. The first five
  parts hold for a handler of any render (\<open>cl\<close>) over any latest state (\<open>st\<close>); the
  last one follows a whole stroke when React renders after every event.
\<close>

theorem persistence_asymmetry:
  "(dragging (dragState st) \<and> \<not> (tool cl = ''pencil'' \<and> isDrawing cl \<and> current cl \<noteq> None) \<longrightarrow>
      (\<exists>st'. handleMouseMove w e cl st = Inr st' \<and>
         shapes st' = drag_map (dragState st) (getPointerPos w e) (shapes st) \<and>
         localStorage st' = Some (JSON_stringify (shapes st')) \<and>
         requests st' = requests st)) \<and>
   (dragging (dragState st) \<and> \<not> (tool cl = ''pencil'' \<and> isDrawing cl \<and> current cl \<noteq> None) \<and>
    shapeId (dragState st) = Some i \<and> List.find (\<lambda>x. s_id x = i) (shapes cl) = Some s \<longrightarrow>
      requests (handleMouseUp w e cl st) = requests st @ [PUT i s] \<and>
      localStorage (handleMouseUp w e cl st) = localStorage st \<and>
      shapes (handleMouseUp w e cl st) = shapes st) \<and>
   (tool cl = ''pencil'' \<longrightarrow>
      shapes (handleMouseDown w e cl st) = shapes st \<and>
      localStorage (handleMouseDown w e cl st) = localStorage st \<and>
      requests (handleMouseDown w e cl st) = requests st) \<and>
   (tool cl = ''pencil'' \<and> isDrawing cl \<and> current cl \<noteq> None \<longrightarrow>
      (\<forall>st'. handleMouseMove w e cl st = Inr st' \<longrightarrow>
         shapes st' = shapes st \<and> localStorage st' = localStorage st \<and>
         requests st' = requests st)) \<and>
   (tool cl = ''pencil'' \<and> isDrawing cl \<and> current cl = Some final \<longrightarrow>
      shapes (handleMouseUp w e cl st) = shapes st @ [final] \<and>
      localStorage (handleMouseUp w e cl st) = Some (JSON_stringify (shapes st @ [final])) \<and>
      requests (handleMouseUp w e cl st) = requests st @ [POST final]) \<and>
   (tool st = ''pencil'' \<longrightarrow>
      (\<exists>st1 final. moves evs (handleMouseDown w e st st) = Inr st1 \<and>
         current st1 = Some final \<and>
         shapes st1 = shapes st \<and> localStorage st1 = localStorage st \<and>
         requests st1 = requests st \<and>
         shapes (handleMouseUp w1 e1 st1 st1) = shapes st @ [final] \<and>
         localStorage (handleMouseUp w1 e1 st1 st1) = Some (JSON_stringify (shapes st @ [final])) \<and>
         requests (handleMouseUp w1 e1 st1 st1) = requests st @ [POST final]))"
proof (intro conjI impI allI)
  assume "dragging (dragState st) \<and> \<not> (tool cl = ''pencil'' \<and> isDrawing cl \<and> current cl \<noteq> None)"
  then show "\<exists>st'. handleMouseMove w e cl st = Inr st' \<and>
         shapes st' = drag_map (dragState st) (getPointerPos w e) (shapes st) \<and>
         localStorage st' = Some (JSON_stringify (shapes st')) \<and>
         requests st' = requests st"
    by (auto simp: handleMouseMove_def setShapes_persist_def Let_def)
next
  assume a: "dragging (dragState st) \<and> \<not> (tool cl = ''pencil'' \<and> isDrawing cl \<and> current cl \<noteq> None) \<and>
    shapeId (dragState st) = Some i \<and> List.find (\<lambda>x. s_id x = i) (shapes cl) = Some s"
  then show "requests (handleMouseUp w e cl st) = requests st @ [PUT i s]"
    by (auto simp: handleMouseUp_def fetch_def Let_def)
  from a show "localStorage (handleMouseUp w e cl st) = localStorage st"
    by (auto simp: handleMouseUp_def fetch_def Let_def)
  from a show "shapes (handleMouseUp w e cl st) = shapes st"
    by (auto simp: handleMouseUp_def fetch_def Let_def)
next
  assume t: "tool cl = ''pencil''"
  show "shapes (handleMouseDown w e cl st) = shapes st"
    by (simp add: down_pencil [OF t])
  show "localStorage (handleMouseDown w e cl st) = localStorage st"
    by (simp add: down_pencil [OF t])
  show "requests (handleMouseDown w e cl st) = requests st"
    by (simp add: down_pencil [OF t])
next
  fix st'
  assume p: "tool cl = ''pencil'' \<and> isDrawing cl \<and> current cl \<noteq> None"
    and m: "handleMouseMove w e cl st = Inr st'"
  from p m have d: "\<exists>prev ps. st' = st\<lparr> current := Some (prev\<lparr> s_points := Some ps \<rparr>) \<rparr>"
    by (auto simp: handleMouseMove_def Let_def split: option.splits)
  from d show "shapes st' = shapes st" by auto
  from d show "localStorage st' = localStorage st" by auto
  from d show "requests st' = requests st" by auto
next
  assume u: "tool cl = ''pencil'' \<and> isDrawing cl \<and> current cl = Some final"
  then show "shapes (handleMouseUp w e cl st) = shapes st @ [final]"
    by (simp add: handleMouseUp_def setShapes_persist_def fetch_def Let_def)
  from u show "localStorage (handleMouseUp w e cl st) = Some (JSON_stringify (shapes st @ [final]))"
    by (simp add: handleMouseUp_def setShapes_persist_def fetch_def Let_def)
  from u show "requests (handleMouseUp w e cl st) = requests st @ [POST final]"
    by (simp add: handleMouseUp_def setShapes_persist_def fetch_def Let_def)
next
  assume t: "tool st = ''pencil''"
  show "\<exists>st1 final. moves evs (handleMouseDown w e st st) = Inr st1 \<and>
         current st1 = Some final \<and>
         shapes st1 = shapes st \<and> localStorage st1 = localStorage st \<and>
         requests st1 = requests st \<and>
         shapes (handleMouseUp w1 e1 st1 st1) = shapes st @ [final] \<and>
         localStorage (handleMouseUp w1 e1 st1 st1) = Some (JSON_stringify (shapes st @ [final])) \<and>
         requests (handleMouseUp w1 e1 st1 st1) = requests st @ [POST final]"
    by (simp add: pencil_gesture [OF t] handleMouseUp_def t setShapes_persist_def
          fetch_def Let_def)
qed

text \<open>
  A drag move sends no \<open>PUT\<close>: moving the grabbed rectangle to \<open>(200, 150)\<close> changes
  the list and the cache, and the log of requests stays empty.
\<close>

theorem drag_move_remote_counterexample:
  "\<not> isl (handleMouseMove io0 (pointer_at 200 150)
            (handleMouseDown io0 (pointer_at 110 105) one_rectangle one_rectangle)
            (handleMouseDown io0 (pointer_at 110 105) one_rectangle one_rectangle)) \<and>
   shapes (handleMouseDown io0 (pointer_at 110 105) one_rectangle one_rectangle) =
     [new_shape ''s1'' ''rectangle'' 100 100 ''page_1''] \<and>
   shapes (projr (handleMouseMove io0 (pointer_at 200 150)
            (handleMouseDown io0 (pointer_at 110 105) one_rectangle one_rectangle)
            (handleMouseDown io0 (pointer_at 110 105) one_rectangle one_rectangle))) =
     [new_shape ''s1'' ''rectangle'' 190 145 ''page_1''] \<and>
   localStorage (projr (handleMouseMove io0 (pointer_at 200 150)
            (handleMouseDown io0 (pointer_at 110 105) one_rectangle one_rectangle)
            (handleMouseDown io0 (pointer_at 110 105) one_rectangle one_rectangle))) =
     Some (JSON_stringify [new_shape ''s1'' ''rectangle'' 190 145 ''page_1'']) \<and>
   requests (projr (handleMouseMove io0 (pointer_at 200 150)
            (handleMouseDown io0 (pointer_at 110 105) one_rectangle one_rectangle)
            (handleMouseDown io0 (pointer_at 110 105) one_rectangle one_rectangle))) = []"
  unfolding down_one_rectangle
  by (simp add: handleMouseMove_def setShapes_persist_def drag_map_def one_rectangle_def
        initial_def getPointerPos_def io0_def pointer_at_def new_shape_def Let_def)

text \<open>
  The grabbed rectangle: the move to \<open>(200, 150)\<close> writes the cache and sends nothing,
  the release sends the \<open>PUT\<close>. A pencil draft: the pointer-down and a move write and
  send nothing, and the release writes the cache and sends the \<open>POST\<close>.
\<close>

theorem persistence_asymmetry_witness:
  "(\<exists>st'. handleMouseMove io0 (pointer_at 200 150)
            (handleMouseDown io0 (pointer_at 110 105) one_rectangle one_rectangle)
            (handleMouseDown io0 (pointer_at 110 105) one_rectangle one_rectangle) = Inr st' \<and>
      localStorage st' = Some (JSON_stringify [new_shape ''s1'' ''rectangle'' 190 145 ''page_1'']) \<and>
      requests st' = []) \<and>
   requests (handleMouseUp io0 (pointer_at 200 150)
       (handleMouseDown io0 (pointer_at 110 105) one_rectangle one_rectangle)
       (handleMouseDown io0 (pointer_at 110 105) one_rectangle one_rectangle)) =
     [PUT ''s1'' (new_shape ''s1'' ''rectangle'' 100 100 ''page_1'')] \<and>
   localStorage (handleMouseDown io0 (pointer_at 0 0) pencil_session pencil_session) = None \<and>
   requests (handleMouseDown io0 (pointer_at 0 0) pencil_session pencil_session) = [] \<and>
   localStorage (projr (handleMouseMove io0 (pointer_at 5 5)
       (handleMouseDown io0 (pointer_at 0 0) pencil_session pencil_session)
       (handleMouseDown io0 (pointer_at 0 0) pencil_session pencil_session))) = None \<and>
   requests (projr (handleMouseMove io0 (pointer_at 5 5)
       (handleMouseDown io0 (pointer_at 0 0) pencil_session pencil_session)
       (handleMouseDown io0 (pointer_at 0 0) pencil_session pencil_session))) = [] \<and>
   requests (handleMouseUp io0 (pointer_at 5 5)
       (handleMouseDown io0 (pointer_at 0 0) pencil_session pencil_session)
       (handleMouseDown io0 (pointer_at 0 0) pencil_session pencil_session)) =
     [POST ((new_shape ''shape_1700000000000_500'' ''pencil'' 0 0 ''page_1'')
               \<lparr> s_points := Some [\<lparr>p_x = 0, p_y = 0\<rparr>] \<rparr>)] \<and>
   (\<exists>st1 final. moves [(io0, pointer_at 5 5)]
            (handleMouseDown io0 (pointer_at 0 0) pencil_session pencil_session) = Inr st1 \<and>
      current st1 = Some final \<and> localStorage st1 = None \<and> requests st1 = [] \<and>
      localStorage (handleMouseUp io0 (pointer_at 5 5) st1 st1) = Some (JSON_stringify [final]) \<and>
      requests (handleMouseUp io0 (pointer_at 5 5) st1 st1) = [POST final])"
proof -
  let ?D = "handleMouseDown io0 (pointer_at 110 105) one_rectangle one_rectangle"
  let ?R = "new_shape ''s1'' ''rectangle'' 100 100 ''page_1''"
  let ?P = "pencil_session"
  let ?PD = "handleMouseDown io0 (pointer_at 0 0) pencil_session pencil_session"
  let ?F = "(new_shape ''shape_1700000000000_500'' ''pencil'' 0 0 ''page_1'')
               \<lparr> s_points := Some [\<lparr>p_x = 0, p_y = 0\<rparr>] \<rparr>"
  have D: "?D = one_rectangle\<lparr> selectedId := Some ''s1'',
        dragState := \<lparr> dragging = True, offsetX = 10, offsetY = 5, shapeId = Some ''s1'' \<rparr> \<rparr>"
    by (rule down_one_rectangle)
  have PD: "?PD = pencil_session\<lparr> isDrawing := True, current := Some ?F \<rparr>"
    by (rule down_pencil_session)
  have h1: "dragging (dragState ?D) \<and> \<not> (tool ?D = ''pencil'' \<and> isDrawing ?D \<and> current ?D \<noteq> None)"
    unfolding D by (simp add: one_rectangle_def initial_def)
  have h2: "dragging (dragState ?D) \<and> \<not> (tool ?D = ''pencil'' \<and> isDrawing ?D \<and> current ?D \<noteq> None) \<and>
    shapeId (dragState ?D) = Some ''s1'' \<and> List.find (\<lambda>x. s_id x = ''s1'') (shapes ?D) = Some ?R"
    unfolding D by (simp add: one_rectangle_def initial_def new_shape_def)
  have h3: "tool ?P = ''pencil''" by (simp add: pencil_session_def)
  have h4: "tool ?PD = ''pencil'' \<and> isDrawing ?PD \<and> current ?PD \<noteq> None"
    unfolding PD by (simp add: pencil_session_def)
  have h5: "tool ?PD = ''pencil'' \<and> isDrawing ?PD \<and> current ?PD = Some ?F"
    unfolding PD by (simp add: pencil_session_def)
  note drag = persistence_asymmetry [where st = ?D and cl = ?D and w = io0
      and e = "pointer_at 200 150" and i = "''s1''" and s = ?R]
  note pencil = persistence_asymmetry [where st = ?P and cl = ?P and w = io0
      and e = "pointer_at 0 0" and evs = "[(io0, pointer_at 5 5)]" and ?w1.0 = io0
      and ?e1.0 = "pointer_at 5 5"]
  note draft = persistence_asymmetry [where st = ?PD and cl = ?PD and w = io0
      and e = "pointer_at 5 5" and final = ?F]
  from drag h1 have "\<exists>st'. handleMouseMove io0 (pointer_at 200 150) ?D ?D = Inr st' \<and>
         shapes st' = drag_map (dragState ?D) (getPointerPos io0 (pointer_at 200 150)) (shapes ?D) \<and>
         localStorage st' = Some (JSON_stringify (shapes st')) \<and>
         requests st' = requests ?D"
    by blast
  then obtain st' where m: "handleMouseMove io0 (pointer_at 200 150) ?D ?D = Inr st'"
    and s: "shapes st' = drag_map (dragState ?D) (getPointerPos io0 (pointer_at 200 150)) (shapes ?D)"
    and l: "localStorage st' = Some (JSON_stringify (shapes st'))"
    and r: "requests st' = requests ?D"
    by blast
  have s': "shapes st' = [new_shape ''s1'' ''rectangle'' 190 145 ''page_1'']"
    unfolding s D
    by (simp add: drag_map_def one_rectangle_def getPointerPos_def io0_def pointer_at_def
          new_shape_def)
  have r': "requests st' = []"
    unfolding r D by (simp add: one_rectangle_def initial_def)
  from m l s' r' have a: "\<exists>st'. handleMouseMove io0 (pointer_at 200 150) ?D ?D = Inr st' \<and>
      localStorage st' = Some (JSON_stringify [new_shape ''s1'' ''rectangle'' 190 145 ''page_1'']) \<and>
      requests st' = []"
    by simp
  from drag h2 have "requests (handleMouseUp io0 (pointer_at 200 150) ?D ?D) = requests ?D @ [PUT ''s1'' ?R]"
    by blast
  moreover have "requests ?D = []" unfolding D by (simp add: one_rectangle_def initial_def)
  ultimately have b: "requests (handleMouseUp io0 (pointer_at 200 150) ?D ?D) = [PUT ''s1'' ?R]"
    by simp
  from pencil h3 have "localStorage ?PD = localStorage ?P \<and> requests ?PD = requests ?P"
    by blast
  then have c: "localStorage ?PD = None" "requests ?PD = []"
    by (simp_all add: pencil_session_def initial_def)
  have mv: "handleMouseMove io0 (pointer_at 5 5) ?PD ?PD =
      Inr (projr (handleMouseMove io0 (pointer_at 5 5) ?PD ?PD))"
    unfolding PD by (simp add: handleMouseMove_def pencil_session_def Let_def)
  from draft h4 mv have "localStorage (projr (handleMouseMove io0 (pointer_at 5 5) ?PD ?PD)) = localStorage ?PD \<and>
      requests (projr (handleMouseMove io0 (pointer_at 5 5) ?PD ?PD)) = requests ?PD"
    by blast
  with c have d: "localStorage (projr (handleMouseMove io0 (pointer_at 5 5) ?PD ?PD)) = None"
      "requests (projr (handleMouseMove io0 (pointer_at 5 5) ?PD ?PD)) = []"
    by simp_all
  from draft h5 have "requests (handleMouseUp io0 (pointer_at 5 5) ?PD ?PD) = requests ?PD @ [POST ?F]"
    by blast
  with c have e: "requests (handleMouseUp io0 (pointer_at 5 5) ?PD ?PD) = [POST ?F]"
    by simp
  from pencil h3 have "\<exists>st1 final. moves [(io0, pointer_at 5 5)] ?PD = Inr st1 \<and>
         current st1 = Some final \<and>
         shapes st1 = shapes ?P \<and> localStorage st1 = localStorage ?P \<and>
         requests st1 = requests ?P \<and>
         shapes (handleMouseUp io0 (pointer_at 5 5) st1 st1) = shapes ?P @ [final] \<and>
         localStorage (handleMouseUp io0 (pointer_at 5 5) st1 st1) = Some (JSON_stringify (shapes ?P @ [final])) \<and>
         requests (handleMouseUp io0 (pointer_at 5 5) st1 st1) = requests ?P @ [POST final]"
    by blast
  then have f: "\<exists>st1 final. moves [(io0, pointer_at 5 5)] ?PD = Inr st1 \<and>
      current st1 = Some final \<and> localStorage st1 = None \<and> requests st1 = [] \<and>
      localStorage (handleMouseUp io0 (pointer_at 5 5) st1 st1) = Some (JSON_stringify [final]) \<and>
      requests (handleMouseUp io0 (pointer_at 5 5) st1 st1) = [POST final]"
    by (simp add: pencil_session_def initial_def, blast)
  from a b c d e f show ?thesis by (intro conjI)
qed

section \<open>Rendering reads the committed list and the selection only\<close>

text \<open>
  Claim C10. \<^verbatim>\<open>draw\<close> depends on the state through the shape list and the selected
  id alone: two states that agree on both give the same calls on the canvas, whatever their
  draft, drawing flag, drag session, tool, cache and request log are. In particular a pencil
  draft in progress (after the pointer-down and any number of moves) is not drawn: the
  calls are those of the state before the gesture.
\<close>

theorem draw_ignores_draft:
  "(shapes st1 = shapes st2 \<and> selectedId st1 = selectedId st2 \<longrightarrow>
      draw cv ratio st1 = draw cv ratio st2) \<and>
   (tool st = ''pencil'' \<longrightarrow>
      (\<exists>st' d. moves evs (handleMouseDown w e st st) = Inr st' \<and> current st' = Some d \<and>
         draw cv ratio st' = draw cv ratio st))"
proof (intro conjI impI)
  assume "shapes st1 = shapes st2 \<and> selectedId st1 = selectedId st2"
  then show "draw cv ratio st1 = draw cv ratio st2"
    by (simp add: draw_def split: option.splits)
next
  assume t: "tool st = ''pencil''"
  show "\<exists>st' d. moves evs (handleMouseDown w e st st) = Inr st' \<and> current st' = Some d \<and>
         draw cv ratio st' = draw cv ratio st"
    by (simp add: pencil_gesture [OF t] draw_def split: option.splits)
qed

text \<open>
  What is drawn for the list of one default rectangle, at a pixel ratio of 2.
\<close>

lemma draw_one_rectangle:
  "draw (Some \<lparr>canvas_width = 1600, canvas_height = 960\<rparr>) (Some 2) one_rectangle =
     [SetTransform 1 0 0 1 0 0, ClearRect 0 0 1600 960, Scale 2 2,
      Save, Translate 100 100, FillStyle ''rgba(0,0,0,0.05)'', FillRect 0 0 60 40,
      StrokeRect 0 0 60 40, Restore]"
  by (simp add: draw_def draw_shape_def draw_variant_def one_rectangle_def initial_def
        new_shape_def)

text \<open>
  The same calls with and without a draft, and after the start of a stroke on the list of
  one rectangle.
\<close>

theorem draw_ignores_draft_witness:
  "draw (Some \<lparr>canvas_width = 1600, canvas_height = 960\<rparr>) (Some 2)
     (one_rectangle\<lparr> tool := ''pencil'', isDrawing := True,
        current := Some ((new_shape ''d'' ''pencil'' 0 0 ''page_1'')
                           \<lparr> s_points := Some [\<lparr>p_x = 0, p_y = 0\<rparr>] \<rparr>) \<rparr>) =
   draw (Some \<lparr>canvas_width = 1600, canvas_height = 960\<rparr>) (Some 2) one_rectangle \<and>
   (\<exists>st' d. moves [(io0, pointer_at 5 5)]
       (handleMouseDown io0 (pointer_at 0 0) (one_rectangle\<lparr> tool := ''pencil'' \<rparr>)
          (one_rectangle\<lparr> tool := ''pencil'' \<rparr>)) = Inr st' \<and>
     current st' = Some d \<and>
     draw (Some \<lparr>canvas_width = 1600, canvas_height = 960\<rparr>) (Some 2) st' =
     draw (Some \<lparr>canvas_width = 1600, canvas_height = 960\<rparr>) (Some 2)
       (one_rectangle\<lparr> tool := ''pencil'' \<rparr>))"
proof -
  let ?cv = "Some \<lparr>canvas_width = 1600, canvas_height = 960\<rparr>"
  let ?st1 = "one_rectangle\<lparr> tool := ''pencil'', isDrawing := True,
        current := Some ((new_shape ''d'' ''pencil'' 0 0 ''page_1'')
                           \<lparr> s_points := Some [\<lparr>p_x = 0, p_y = 0\<rparr>] \<rparr>) \<rparr>"
  let ?st = "one_rectangle\<lparr> tool := ''pencil'' \<rparr>"
  have h1: "shapes ?st1 = shapes one_rectangle \<and> selectedId ?st1 = selectedId one_rectangle"
    by simp
  have h2: "tool ?st = ''pencil''" by simp
  from draw_ignores_draft [where ?st1.0 = ?st1 and ?st2.0 = one_rectangle and cv = ?cv
      and ratio = "Some 2"] h1
  have a: "draw ?cv (Some 2) ?st1 = draw ?cv (Some 2) one_rectangle" by blast
  from draw_ignores_draft [where st = ?st and cv = ?cv and ratio = "Some 2" and w = io0
      and e = "pointer_at 0 0" and evs = "[(io0, pointer_at 5 5)]"] h2
  have b: "\<exists>st' d. moves [(io0, pointer_at 5 5)] (handleMouseDown io0 (pointer_at 0 0) ?st ?st) = Inr st' \<and>
     current st' = Some d \<and> draw ?cv (Some 2) st' = draw ?cv (Some 2) ?st"
    by blast
  from a b show ?thesis by (intro conjI)
qed

section \<open>Startup\<close>

lemma load_failed:
  "fetch_failed res \<Longrightarrow> load res st = load_fallback (fetch (GET (pageId st)) st)"
proof (cases res)
  case NetworkError
  then show ?thesis by (simp add: load_def Let_def)
next
  case (Response ok body)
  assume "fetch_failed res"
  with Response show ?thesis
    by (cases ok; cases body) (simp_all add: load_def Let_def)
qed

lemma load_fallback_stringified:
  "localStorage st = Some (JSON_stringify l) \<Longrightarrow> load_fallback st = Inr (st\<lparr> shapes := l \<rparr>)"
  by (simp add: load_fallback_def JSON_stringify_neq_Nil JSON_round_trip shape_list_round_trip)

text \<open>
  A cached text that \<^verbatim>\<open>JSON.parse\<close> rejects, such as an unclosed array, is the
  input on which \<^verbatim>\<open>load\<close> ends with an exception; the component never writes such a
  text.
\<close>

lemma load_invalid_cache:
  "fetch_failed res \<Longrightarrow> saved \<noteq> [] \<Longrightarrow> JSON_parse saved = None \<Longrightarrow>
   load res (initial (Some saved)) = Inl SyntaxError"
  by (simp add: load_failed load_fallback_def fetch_def initial_def)

lemma JSON_parse_unclosed: "JSON_parse [LBracket, LBrace] = None"
  by (simp add: JSON_parse_def parse_elements.simps parse_members.simps)

text \<open>
  Claim C7. At startup, when the fetch succeeds the shape list becomes the fetched list and
  the cache is overwritten with it. When the fetch fails (network error, response that is
  not a success, unreadable body) and the cache holds a serialised list, the shape list
  becomes that list; when the cache is absent the list stays empty. In each case
  \<^verbatim>\<open>load\<close> returns normally: no exception leaves it.
\<close>

theorem load_startup:
  "load (Response True (Some data)) (initial cache) =
     Inr ((initial cache)\<lparr> shapes := data, localStorage := Some (JSON_stringify data),
                            requests := [GET ''page_1''] \<rparr>) \<and>
   (fetch_failed res \<longrightarrow>
      load res (initial (Some (JSON_stringify l))) =
        Inr ((initial (Some (JSON_stringify l)))\<lparr> shapes := l, requests := [GET ''page_1''] \<rparr>)) \<and>
   (fetch_failed res \<longrightarrow>
      load res (initial None) = Inr ((initial None)\<lparr> requests := [GET ''page_1''] \<rparr>) \<and>
      shapes ((initial None)\<lparr> requests := [GET ''page_1''] \<rparr>) = [])"
proof (intro conjI impI)
  show "load (Response True (Some data)) (initial cache) =
     Inr ((initial cache)\<lparr> shapes := data, localStorage := Some (JSON_stringify data),
                            requests := [GET ''page_1''] \<rparr>)"
    by (simp add: load_def fetch_def initial_def Let_def)
next
  assume f: "fetch_failed res"
  have "load_fallback (fetch (GET (pageId (initial (Some (JSON_stringify l))))) (initial (Some (JSON_stringify l)))) =
      Inr ((fetch (GET (pageId (initial (Some (JSON_stringify l))))) (initial (Some (JSON_stringify l))))\<lparr> shapes := l \<rparr>)"
    by (rule load_fallback_stringified) (simp add: fetch_def initial_def)
  then show "load res (initial (Some (JSON_stringify l))) =
        Inr ((initial (Some (JSON_stringify l)))\<lparr> shapes := l, requests := [GET ''page_1''] \<rparr>)"
    by (simp add: load_failed [OF f] fetch_def initial_def)
next
  assume "fetch_failed res"
  then show "load res (initial None) = Inr ((initial None)\<lparr> requests := [GET ''page_1''] \<rparr>)"
    by (simp add: load_failed load_fallback_def fetch_def initial_def)
next
  show "shapes ((initial None)\<lparr> requests := [GET ''page_1''] \<rparr>) = []"
    by (simp add: initial_def)
qed

text \<open>
  A response with status other than success over a cache of one rectangle, and a network
  error over an empty cache.
\<close>

theorem load_startup_witness:
  "shapes (projr (load (Response False (Some [new_shape ''a'' ''circle'' 1 2 ''page_1'']))
       (initial (Some (JSON_stringify [new_shape ''s1'' ''rectangle'' 100 100 ''page_1'']))))) =
     [new_shape ''s1'' ''rectangle'' 100 100 ''page_1''] \<and>
   shapes (projr (load NetworkError (initial None))) = [] \<and>
   \<not> isl (load NetworkError (initial None))"
proof -
  have f1: "fetch_failed (Response False (Some [new_shape ''a'' ''circle'' 1 2 ''page_1'']))"
    by simp
  have f2: "fetch_failed NetworkError" by simp
  from load_startup [where res = "Response False (Some [new_shape ''a'' ''circle'' 1 2 ''page_1''])"
      and l = "[new_shape ''s1'' ''rectangle'' 100 100 ''page_1'']"] f1
  have a: "load (Response False (Some [new_shape ''a'' ''circle'' 1 2 ''page_1'']))
       (initial (Some (JSON_stringify [new_shape ''s1'' ''rectangle'' 100 100 ''page_1'']))) =
     Inr ((initial (Some (JSON_stringify [new_shape ''s1'' ''rectangle'' 100 100 ''page_1''])))
           \<lparr> shapes := [new_shape ''s1'' ''rectangle'' 100 100 ''page_1''],
             requests := [GET ''page_1''] \<rparr>)"
    by blast
  from load_startup [where res = NetworkError] f2
  have b: "load NetworkError (initial None) = Inr ((initial None)\<lparr> requests := [GET ''page_1''] \<rparr>)"
    by blast
  show ?thesis unfolding a b by (simp add: initial_def)
qed

section \<open>Round trip through the local cache\<close>

text \<open>
  Claim C8. For every list of shapes, the text that \<^verbatim>\<open>JSON.stringify\<close> writes is
  parsed back by \<^verbatim>\<open>JSON.parse\<close> to the array of the same objects, and that array read
  as a list of shapes is the original list: same length, same order, same ids and field
  values. Hence a new session started over the cache left by a committed mutation, whose
  fetch fails, holds exactly the list that the mutation produced.
\<close>

theorem cache_round_trip:
  "JSON_parse (JSON_stringify l) = Some (JArr (map shape_json l)) \<and>
   shapes_of_json (JArr (map shape_json l)) = Some l \<and>
   load_fallback (initial (localStorage (setShapes_persist f st))) =
     Inr ((initial (localStorage (setShapes_persist f st)))\<lparr> shapes := f (shapes st) \<rparr>)"
proof (intro conjI)
  show "JSON_parse (JSON_stringify l) = Some (JArr (map shape_json l))"
    by (rule JSON_round_trip)
  show "shapes_of_json (JArr (map shape_json l)) = Some l"
    by (rule shapes_round_trip)
  show "load_fallback (initial (localStorage (setShapes_persist f st))) =
     Inr ((initial (localStorage (setShapes_persist f st)))\<lparr> shapes := f (shapes st) \<rparr>)"
    by (rule load_fallback_stringified) (simp add: setShapes_persist_def initial_def Let_def)
qed

text \<open>
  The tokens of a list of a circle and a stroke of two points, and the parser run on the
  text of the circle alone.
\<close>

lemma JSON_stringify_example:
  "JSON_stringify
     [(new_shape ''a'' ''circle'' 150 230 ''page_1'')\<lparr> s_radius := Some 30 \<rparr>,
      (new_shape ''b'' ''pencil'' 0 0 ''page_1'')
        \<lparr> s_points := Some [\<lparr>p_x = 0, p_y = 0\<rparr>, \<lparr>p_x = 5, p_y = 5\<rparr>] \<rparr>] =
   [LBracket,
    LBrace, TStr ''id'', Colon, TStr ''a'', Comma, TStr ''type'', Colon, TStr ''circle'', Comma,
      TStr ''x'', Colon, TNum 150, Comma, TStr ''y'', Colon, TNum 230, Comma,
      TStr ''pageId'', Colon, TStr ''page_1'', Comma, TStr ''radius'', Colon, TNum 30, RBrace,
    Comma,
    LBrace, TStr ''id'', Colon, TStr ''b'', Comma, TStr ''type'', Colon, TStr ''pencil'', Comma,
      TStr ''x'', Colon, TNum 0, Comma, TStr ''y'', Colon, TNum 0, Comma,
      TStr ''pageId'', Colon, TStr ''page_1'', Comma, TStr ''points'', Colon,
      LBracket, LBrace, TStr ''x'', Colon, TNum 0, Comma, TStr ''y'', Colon, TNum 0, RBrace, Comma,
                LBrace, TStr ''x'', Colon, TNum 5, Comma, TStr ''y'', Colon, TNum 5, RBrace,
      RBracket, RBrace,
    RBracket]"
  by (simp add: JSON_stringify_def shape_json_def point_json_def new_shape_def)

lemma JSON_parse_example:
  "JSON_parse
     [LBracket,
      LBrace, TStr ''id'', Colon, TStr ''a'', Comma, TStr ''type'', Colon, TStr ''circle'', Comma,
        TStr ''x'', Colon, TNum 150, Comma, TStr ''y'', Colon, TNum 230, Comma,
        TStr ''pageId'', Colon, TStr ''page_1'', Comma, TStr ''radius'', Colon, TNum 30, RBrace,
      RBracket] =
   Some (JArr [JObj [(''id'', JStr ''a''), (''type'', JStr ''circle''), (''x'', JNum 150),
                     (''y'', JNum 230), (''pageId'', JStr ''page_1''), (''radius'', JNum 30)]])"
  by (simp add: JSON_parse_def parse_elements.simps parse_members.simps)

text \<open>
  Parsing the text of the circle and the stroke and reading the result as shapes gives
  the two shapes back.
\<close>

theorem cache_round_trip_witness:
  "Option.bind
     (JSON_parse
       [LBracket,
        LBrace, TStr ''id'', Colon, TStr ''a'', Comma, TStr ''type'', Colon, TStr ''circle'', Comma,
          TStr ''x'', Colon, TNum 150, Comma, TStr ''y'', Colon, TNum 230, Comma,
          TStr ''pageId'', Colon, TStr ''page_1'', Comma, TStr ''radius'', Colon, TNum 30, RBrace,
        Comma,
        LBrace, TStr ''id'', Colon, TStr ''b'', Comma, TStr ''type'', Colon, TStr ''pencil'', Comma,
          TStr ''x'', Colon, TNum 0, Comma, TStr ''y'', Colon, TNum 0, Comma,
          TStr ''pageId'', Colon, TStr ''page_1'', Comma, TStr ''points'', Colon,
          LBracket, LBrace, TStr ''x'', Colon, TNum 0, Comma, TStr ''y'', Colon, TNum 0, RBrace, Comma,
                    LBrace, TStr ''x'', Colon, TNum 5, Comma, TStr ''y'', Colon, TNum 5, RBrace,
          RBracket, RBrace,
        RBracket])
     shapes_of_json =
   Some [(new_shape ''a'' ''circle'' 150 230 ''page_1'')\<lparr> s_radius := Some 30 \<rparr>,
         (new_shape ''b'' ''pencil'' 0 0 ''page_1'')
           \<lparr> s_points := Some [\<lparr>p_x = 0, p_y = 0\<rparr>, \<lparr>p_x = 5, p_y = 5\<rparr>] \<rparr>]"
  using cache_round_trip [where l =
     "[(new_shape ''a'' ''circle'' 150 230 ''page_1'')\<lparr> s_radius := Some 30 \<rparr>,
       (new_shape ''b'' ''pencil'' 0 0 ''page_1'')
         \<lparr> s_points := Some [\<lparr>p_x = 0, p_y = 0\<rparr>, \<lparr>p_x = 5, p_y = 5\<rparr>] \<rparr>]"]
  unfolding JSON_stringify_example by simp

section \<open>Quick-add\<close>

text \<open>
  Claim C9, as amended. \<^verbatim>\<open>addShape\<close> appends one shape. For every variant it sets
  the id (from \<^verbatim>\<open>uid\<close>), the type, the position \<open>(100 + 200 r\<^sub>x, 80 + 200 r\<^sub>y)\<close>
  and the active page; it adds the radius 30 to a circle, the second endpoint
  \<open>(x + 80, y)\<close> to a line or an arrow, the content \<^verbatim>\<open>'Text'\<close> and the font size 16
  to a text, and nothing else. A quick-added rectangle therefore has no width, height or
  color; the renderer and the hit test put 60, 40 and \<^verbatim>\<open>rgba(0,0,0,0.05)\<close> in their
  place when they read the shape.
\<close>

theorem addShape_fields:
  "shapes (addShape ty t r_id r_x r_y st) = shapes st @ [addShape_object ty t r_id r_x r_y (pageId st)] \<and>
   s_id (addShape_object ty t r_id r_x r_y pg) = uid ''shape'' t r_id \<and>
   s_type (addShape_object ty t r_id r_x r_y pg) = ty \<and>
   s_x (addShape_object ty t r_id r_x r_y pg) = 100 + r_x * 200 \<and>
   s_y (addShape_object ty t r_id r_x r_y pg) = 80 + r_y * 200 \<and>
   s_pageId (addShape_object ty t r_id r_x r_y pg) = pg \<and>
   s_radius (addShape_object ty t r_id r_x r_y pg) = (if ty = ''circle'' then Some 30 else None) \<and>
   s_x2 (addShape_object ty t r_id r_x r_y pg) =
     (if ty \<in> {''line'', ''arrow''} then Some (100 + r_x * 200 + 80) else None) \<and>
   s_y2 (addShape_object ty t r_id r_x r_y pg) =
     (if ty \<in> {''line'', ''arrow''} then Some (80 + r_y * 200) else None) \<and>
   s_content (addShape_object ty t r_id r_x r_y pg) = (if ty = ''text'' then Some ''Text'' else None) \<and>
   s_fontSize (addShape_object ty t r_id r_x r_y pg) = (if ty = ''text'' then Some 16 else None) \<and>
   s_fontFamily (addShape_object ty t r_id r_x r_y pg) = None \<and>
   s_points (addShape_object ty t r_id r_x r_y pg) = None \<and>
   s_width (addShape_object ty t r_id r_x r_y pg) = None \<and>
   s_height (addShape_object ty t r_id r_x r_y pg) = None \<and>
   s_color (addShape_object ty t r_id r_x r_y pg) = None \<and>
   draw_variant (addShape_object ''rectangle'' t r_id r_x r_y pg) =
     [FillStyle ''rgba(0,0,0,0.05)'', FillRect 0 0 60 40, StrokeRect 0 0 60 40] \<and>
   returns_at pt (addShape_object ''rectangle'' t r_id r_x r_y pg) =
     in_box pt (100 + r_x * 200) (80 + r_y * 200) (100 + r_x * 200 + 60) (80 + r_y * 200 + 40)"
  by (simp add: addShape_def addShape_object_def setShapes_persist_def fetch_def new_shape_def
        draw_variant_def returns_at_def in_box_def Let_def)

text \<open>
  A quick-added rectangle carries neither \<^verbatim>\<open>width = 60\<close>, nor \<^verbatim>\<open>height = 40\<close>,
  nor a fill color.
\<close>

theorem addShape_fields_counterexample:
  "s_width (addShape_object ''rectangle'' 1700000000000 (1 / 2) (1 / 4) (3 / 4) ''page_1'') = None \<and>
   s_height (addShape_object ''rectangle'' 1700000000000 (1 / 2) (1 / 4) (3 / 4) ''page_1'') = None \<and>
   s_color (addShape_object ''rectangle'' 1700000000000 (1 / 2) (1 / 4) (3 / 4) ''page_1'') = None \<and>
   shapes (addShape ''rectangle'' 1700000000000 (1 / 2) (1 / 4) (3 / 4) (initial None)) =
     [addShape_object ''rectangle'' 1700000000000 (1 / 2) (1 / 4) (3 / 4) ''page_1'']"
  by (simp add: addShape_def addShape_object_def setShapes_persist_def fetch_def new_shape_def
        initial_def Let_def)

text \<open>
  Claim C6. Two calls of \<^verbatim>\<open>addShape('circle')\<close> within the same millisecond whose
  random draws \<open>0.5003\<close> and \<open>0.5009\<close> fall into the same thousandth receive the same
  id, \<^verbatim>\<open>shape_1700000000000_500\<close>: the ids of the list are not distinct.
\<close>

theorem uid_collision:
  "map s_id (shapes (addShape ''circle'' 1700000000000 (5009 / 10000) (9 / 10) (1 / 10)
             (addShape ''circle'' 1700000000000 (5003 / 10000) (1 / 4) (3 / 4) (initial None)))) =
     [''shape_1700000000000_500'', ''shape_1700000000000_500''] \<and>
   \<not> distinct (map s_id (shapes (addShape ''circle'' 1700000000000 (5009 / 10000) (9 / 10) (1 / 10)
             (addShape ''circle'' 1700000000000 (5003 / 10000) (1 / 4) (3 / 4) (initial None)))))"
  by (simp add: addShape_def addShape_object_def setShapes_persist_def fetch_def new_shape_def
        initial_def Let_def uid_def str_of_int_def str_of_nat.simps digit_def)

end
